theory Spec2Isabelle
  imports Main "HOL-Library.Word"
begin

section \<open>The IR substrate: types, attributes, values\<close>

text \<open>
  The conversion patterns of \<^verbatim>\<open>ConvertStandardToVM.cpp\<close> and \<^verbatim>\<open>ConvertToLLVM.cpp\<close>
  inspect operations, their attributes, their types and their (already converted)
  operands, and either build replacement operations or decline.  The IR objects are
  modelled as tagged variants with a payload; only the parts that the patterns read or
  build are represented.
\<close>

datatype Signedness = Signless | Signed | Unsigned

datatype Type =
    IntegerType nat Signedness
  | IndexType
  | FloatType nat
  | MemRefType "nat option list" Type nat
  | FunctionType "Type list" "Type list"
  | LLVMPointerType Type nat
  | LLVMVoidType
  | LLVMFunctionType Type "Type list"
  | OpaqueType string

text \<open>
  \<^verbatim>\<open>MemRefType shape elementType memorySpace\<close>: a dimension of the shape is \<open>None\<close>
  when it is dynamic.  \<^verbatim>\<open>OpaqueType\<close> stands for every type of another dialect.
\<close>

fun isSignlessInteger :: "Type \<Rightarrow> bool" where
  "isSignlessInteger (IntegerType w Signless) = True"
| "isSignlessInteger _ = False"

fun isSignlessIntOrIndex :: "Type \<Rightarrow> bool" where
  "isSignlessIntOrIndex (IntegerType w Signless) = True"
| "isSignlessIntOrIndex IndexType = True"
| "isSignlessIntOrIndex _ = False"

text \<open>
  \<^verbatim>\<open>Type::getIntOrFloatBitWidth\<close> is specified for integer and floating point types
  only (the library asserts \<^verbatim>\<open>isIntOrFloat()\<close>); \<open>None\<close> is the violated precondition.
\<close>

fun getIntOrFloatBitWidth :: "Type \<Rightarrow> nat option" where
  "getIntOrFloatBitWidth (IntegerType w s) = Some w"
| "getIntOrFloatBitWidth (FloatType w) = Some w"
| "getIntOrFloatBitWidth _ = None"

text \<open>
  An \<^verbatim>\<open>APInt\<close> is a bit width and the unsigned reading of its bits.
  \<^verbatim>\<open>getZExtValue\<close> returns that reading as a \<^verbatim>\<open>uint64_t\<close> and requires it to fit
  (\<open>None\<close> otherwise); \<^verbatim>\<open>getSExtValue\<close> is the two's complement reading.
\<close>

datatype APInt = APInt (getBitWidth: nat) (unsignedValue: nat)

fun getZExtValue :: "APInt \<Rightarrow> nat option" where
  "getZExtValue (APInt w u) = (if u < 2 ^ 64 then Some u else None)"

fun getSExtValue :: "APInt \<Rightarrow> int" where
  "getSExtValue (APInt w u) = (if 0 < w \<and> 2 ^ (w - 1) \<le> u then int u - 2 ^ w else int u)"

datatype Attribute =
    IntegerAttr Type int
  | FloatAttr Type nat
  | StringAttr string
  | UnitAttr
  | SymbolRefAttr string
  | TypeAttr Type
  | DictionaryAttr "(string \<times> Attribute) list"

text \<open>
  \<^verbatim>\<open>IntegerAttr ty v\<close> is the attribute written \<^verbatim>\<open>v : ty\<close>; its type is an integer
  type or \<^verbatim>\<open>index\<close> (stored in 64 bits), and its \<^verbatim>\<open>APInt\<close> holds \<open>v\<close> in that many bits.
\<close>

fun storageBitWidth :: "Type \<Rightarrow> nat" where
  "storageBitWidth (IntegerType w s) = w"
| "storageBitWidth IndexType = 64"
| "storageBitWidth _ = 0"

definition getValue :: "Type \<Rightarrow> int \<Rightarrow> APInt" where
  "getValue ty v = APInt (storageBitWidth ty) (nat (v mod 2 ^ storageBitWidth ty))"

definition getInt :: "Type \<Rightarrow> int \<Rightarrow> int" where
  "getInt ty v = getSExtValue (getValue ty v)"

text \<open>
  A value is a block argument or the result of an operation.  The only defining
  operations that a pattern looks through are constant-like ones
  (\<^verbatim>\<open>matchPattern(v, m_ConstantInt(&amount))\<close>): \<^verbatim>\<open>IntegerConstant ty v\<close> is the
  result, of type \<open>ty\<close>, of a constant-like operation whose attribute is \<^verbatim>\<open>v : ty\<close>.
  Every other result is an \<^verbatim>\<open>OpResult\<close>.
\<close>

datatype Value =
    BlockArgument nat Type
  | OpResult nat Type
  | IntegerConstant Type int

fun getType :: "Value \<Rightarrow> Type" where
  "getType (BlockArgument n ty) = ty"
| "getType (OpResult n ty) = ty"
| "getType (IntegerConstant ty v) = ty"

fun m_ConstantInt :: "Value \<Rightarrow> APInt option" where
  "m_ConstantInt (IntegerConstant ty v) =
     (if isSignlessIntOrIndex ty then Some (getValue ty v) else None)"
| "m_ConstantInt _ = None"

subsection \<open>Results of a pattern\<close>

text \<open>
  \<^verbatim>\<open>matchAndRewrite\<close> returns \<^verbatim>\<open>success()\<close> after building its replacement, or
  \<^verbatim>\<open>failure()\<close> (possibly after emitting a remark on the operation).  An
  \<^verbatim>\<open>assert\<close> that does not hold, or a violated precondition of a library call, ends
  the run; it is the third outcome.
\<close>

datatype error = MatchFailure "string option" | AssertionFailure

abbreviation failure :: "error + 'a" where
  "failure \<equiv> Inl (MatchFailure None)"

abbreviation failureWithRemark :: "string \<Rightarrow> error + 'a" where
  "failureWithRemark msg \<equiv> Inl (MatchFailure (Some msg))"

abbreviation success :: "'a \<Rightarrow> error + 'a" where
  "success x \<equiv> Inr x"

fun declines :: "error + 'a \<Rightarrow> bool" where
  "declines (Inl (MatchFailure m)) = True"
| "declines _ = False"

fun succeeds :: "error + 'a \<Rightarrow> bool" where
  "succeeds (Inr x) = True"
| "succeeds _ = False"

section \<open>Standard-to-VM patterns\<close>

subsection \<open>Operations of the VM dialect built by the patterns\<close>

datatype VMOp =
    VM_CmpEQI32Op Type Value Value
  | VM_CmpNEI32Op Type Value Value
  | VM_CmpLTI32SOp Type Value Value
  | VM_CmpLTEI32SOp Type Value Value
  | VM_CmpGTI32SOp Type Value Value
  | VM_CmpGTEI32SOp Type Value Value
  | VM_CmpLTI32UOp Type Value Value
  | VM_CmpLTEI32UOp Type Value Value
  | VM_CmpGTI32UOp Type Value Value
  | VM_CmpGTEI32UOp Type Value Value
  | VM_ConstI32ZeroOp
  | VM_ConstI32Op "32 word"
  | VM_ShlI32Op Type Value Attribute
  | VM_SelectI32Op Type Value Value Value
  | VM_CallOp string "Type list" "Value list"

subsection \<open>CmpIOpConversion\<close>

datatype CmpIPredicate = eq | ne | slt | sle | sgt | sge | ult | ule | ugt | uge

record CmpIOp =
  getPredicate :: CmpIPredicate

record BinaryOperandAdaptor =
  lhs :: Value
  rhs :: Value

fun CmpIOpConversion :: "CmpIOp \<Rightarrow> BinaryOperandAdaptor \<Rightarrow> error + VMOp" where
  "CmpIOpConversion srcOp srcAdapter =
     (let returnType = IntegerType 32 Signless in
      case getPredicate srcOp of
        eq \<Rightarrow> success (VM_CmpEQI32Op returnType (lhs srcAdapter) (rhs srcAdapter))
      | ne \<Rightarrow> success (VM_CmpNEI32Op returnType (lhs srcAdapter) (rhs srcAdapter))
      | slt \<Rightarrow> success (VM_CmpLTI32SOp returnType (lhs srcAdapter) (rhs srcAdapter))
      | sle \<Rightarrow> success (VM_CmpLTEI32SOp returnType (lhs srcAdapter) (rhs srcAdapter))
      | sgt \<Rightarrow> success (VM_CmpGTI32SOp returnType (lhs srcAdapter) (rhs srcAdapter))
      | sge \<Rightarrow> success (VM_CmpGTEI32SOp returnType (lhs srcAdapter) (rhs srcAdapter))
      | ult \<Rightarrow> success (VM_CmpLTI32UOp returnType (lhs srcAdapter) (rhs srcAdapter))
      | ule \<Rightarrow> success (VM_CmpLTEI32UOp returnType (lhs srcAdapter) (rhs srcAdapter))
      | ugt \<Rightarrow> success (VM_CmpGTI32UOp returnType (lhs srcAdapter) (rhs srcAdapter))
      | uge \<Rightarrow> success (VM_CmpGTEI32UOp returnType (lhs srcAdapter) (rhs srcAdapter)))"

subsection \<open>ConstantOpConversion\<close>

record ConstantOp =
  ConstantOp_getValue :: Attribute

text \<open>
  Modelled from the spec: the builder of \<^verbatim>\<open>vm.const.i32\<close> (declared with the VM
  dialect's operations, outside these sources) takes the value as an \<^verbatim>\<open>int32_t\<close>;
  the pattern passes it the \<^verbatim>\<open>int64_t\<close> returned by \<^verbatim>\<open>getInt()\<close>.
\<close>

definition build_ConstI32Op :: "int \<Rightarrow> VMOp" where
  "build_ConstI32Op intValue = VM_ConstI32Op (word_of_int intValue)"

fun ConstantOpConversion :: "ConstantOp \<Rightarrow> error + VMOp" where
  "ConstantOpConversion srcOp =
     (case ConstantOp_getValue srcOp of
        IntegerAttr ty v \<Rightarrow>
          (case getIntOrFloatBitWidth ty of
             None \<Rightarrow> Inl AssertionFailure
           | Some numBits \<Rightarrow>
               if numBits \<noteq> 1 \<and> numBits \<noteq> 32
               then failureWithRemark ''unsupported bit width for dialect constant''
               else let intValue = getInt ty v in
                    if intValue = 0 then success VM_ConstI32ZeroOp
                    else success (build_ConstI32Op intValue))
      | _ \<Rightarrow> failureWithRemark ''unsupported const type for dialect'')"

subsection \<open>ShiftArithmeticOpConversion\<close>

record ShiftLeftOp =
  ShiftLeftOp_getType :: Type

text \<open>
  The class is a template over the source operation, the destination operation
  \<open>DstOpTy\<close> and the supported width \<open>kBits\<close> (32 by default).  The only instance
  registered is \<^verbatim>\<open>ShiftArithmeticOpConversion<ShiftLeftOp, IREE::VM::ShlI32Op>\<close>.
\<close>

fun ShiftArithmeticOpConversion ::
  "(Type \<Rightarrow> Value \<Rightarrow> Attribute \<Rightarrow> VMOp) \<Rightarrow> nat \<Rightarrow> ShiftLeftOp \<Rightarrow> BinaryOperandAdaptor
     \<Rightarrow> error + VMOp" where
  "ShiftArithmeticOpConversion DstOpTy kBits srcOp srcAdaptor =
     (let type = ShiftLeftOp_getType srcOp in
      if \<not> isSignlessInteger type \<or> getIntOrFloatBitWidth type \<noteq> Some kBits then failure
      else case m_ConstantInt (rhs srcAdaptor) of
             None \<Rightarrow> failure
           | Some amount \<Rightarrow>
               (case getZExtValue amount of
                  None \<Rightarrow> Inl AssertionFailure
                | Some amountRaw \<Rightarrow>
                    if amountRaw > kBits then failure
                    else let amountAttr = IntegerAttr (IntegerType 8 Signless) (int amountRaw) in
                         success (DstOpTy (ShiftLeftOp_getType srcOp) (lhs srcAdaptor) amountAttr)))"

definition ShiftLeftOpConversion :: "ShiftLeftOp \<Rightarrow> BinaryOperandAdaptor \<Rightarrow> error + VMOp" where
  "ShiftLeftOpConversion = ShiftArithmeticOpConversion VM_ShlI32Op 32"

subsection \<open>SelectI32OpConversion\<close>

record SelectOpOperandAdaptor =
  condition :: Value
  true_value :: Value
  false_value :: Value

definition SelectI32OpConversion_kBits :: nat where
  "SelectI32OpConversion_kBits = 32"

fun SelectI32OpConversion :: "SelectOpOperandAdaptor \<Rightarrow> error + VMOp" where
  "SelectI32OpConversion srcAdaptor =
     (let requiredType = IntegerType SelectI32OpConversion_kBits Signless in
      if getType (true_value srcAdaptor) \<noteq> requiredType then failure
      else success (VM_SelectI32Op requiredType (condition srcAdaptor)
                      (true_value srcAdaptor) (false_value srcAdaptor)))"

subsection \<open>The type converter\<close>

text \<open>
  \<^verbatim>\<open>VMTypeConverter\<close> is declared outside these sources; its conversion of one type into
  a list of types (\<open>None\<close> when the type is unconvertible) is a parameter \<open>conv\<close> of
  the patterns that use it.  The entry points below are those of the conversion
  framework's \<^verbatim>\<open>TypeConverter\<close>.
\<close>

type_synonym TypeConverter = "Type \<Rightarrow> Type list option"

fun convertType :: "TypeConverter \<Rightarrow> Type \<Rightarrow> Type option" where
  "convertType conv t =
     (case conv t of
        Some [t'] \<Rightarrow> Some t'
      | _ \<Rightarrow> None)"

fun convertTypes :: "TypeConverter \<Rightarrow> Type list \<Rightarrow> Type list \<Rightarrow> Type list option" where
  "convertTypes conv [] results = Some results"
| "convertTypes conv (t # ts) results =
     (case conv t of
        None \<Rightarrow> None
      | Some converted \<Rightarrow> convertTypes conv ts (results @ converted))"

record SignatureConversion =
  remappedInputs :: "(nat \<times> nat) option list"
  argTypes :: "Type list"

definition SignatureConversion_init :: "nat \<Rightarrow> SignatureConversion" where
  "SignatureConversion_init numOrigInputs =
     \<lparr>remappedInputs = replicate numOrigInputs None, argTypes = []\<rparr>"

definition addInputs :: "Type list \<Rightarrow> SignatureConversion \<Rightarrow> SignatureConversion" where
  "addInputs types sc = sc\<lparr>argTypes := argTypes sc @ types\<rparr>"

definition addInputsAt :: "nat \<Rightarrow> Type list \<Rightarrow> SignatureConversion \<Rightarrow> SignatureConversion" where
  "addInputsAt origInputNo types sc =
     addInputs types
       (sc\<lparr>remappedInputs :=
             (remappedInputs sc)[origInputNo := Some (length (argTypes sc), length types)]\<rparr>)"

definition getConvertedTypes :: "SignatureConversion \<Rightarrow> Type list" where
  "getConvertedTypes sc = argTypes sc"

fun convertSignatureArg ::
  "TypeConverter \<Rightarrow> nat \<Rightarrow> Type \<Rightarrow> SignatureConversion \<Rightarrow> SignatureConversion option" where
  "convertSignatureArg conv inputNo t sc =
     (case conv t of
        None \<Rightarrow> None
      | Some [] \<Rightarrow> Some sc
      | Some convertedTypes \<Rightarrow> Some (addInputsAt inputNo convertedTypes sc))"

subsection \<open>CallOpConversion\<close>

record CallOp =
  CallOp_getCallee :: string
  CallOp_getResultTypes :: "Type list"

text \<open>The loop over the result types, returning at the first unconvertible one.\<close>

fun convertResultTypes :: "TypeConverter \<Rightarrow> Type list \<Rightarrow> Type list \<Rightarrow> Type list option" where
  "convertResultTypes conv [] resultTypes = Some resultTypes"
| "convertResultTypes conv (resultType # rest) resultTypes =
     (case convertType conv resultType of
        None \<Rightarrow> None
      | Some resultType' \<Rightarrow> convertResultTypes conv rest (resultTypes @ [resultType']))"

fun CallOpConversion :: "TypeConverter \<Rightarrow> CallOp \<Rightarrow> Value list \<Rightarrow> error + VMOp" where
  "CallOpConversion conv srcOp operands =
     (case convertResultTypes conv (CallOp_getResultTypes srcOp) [] of
        None \<Rightarrow> failure
      | Some resultTypes \<Rightarrow>
          success (VM_CallOp (CallOp_getCallee srcOp) resultTypes operands))"

subsection \<open>Regions\<close>

text \<open>
  The body of a module or function is a region: a list of blocks, the first being the
  entry block; a block has typed arguments and a list of operations, which own regions
  in turn.  The buffer-interface-binding reference
  (\<^verbatim>\<open>hal.interface.binding.subspan\<close>) is the one operation kind that a pattern
  looks for inside a body; it carries the symbol of the binding it refers to and its
  result type, and owns no region.  Every other operation is a \<^verbatim>\<open>GenericOp\<close> with
  its name, attributes, result types and regions.
\<close>

datatype Operation =
    InterfaceBindingSubspanOp string Type
  | GenericOp string "(string \<times> Attribute) list" "Type list" "Block list list"
and Block =
    Block "Type list" "Operation list"

type_synonym Region = "Block list"

type_synonym NamedAttrList = "(string \<times> Attribute) list"

definition getAttr :: "string \<Rightarrow> NamedAttrList \<Rightarrow> Attribute option" where
  "getAttr attrName attrs = map_of attrs attrName"

fun setAttr :: "string \<Rightarrow> Attribute \<Rightarrow> NamedAttrList \<Rightarrow> NamedAttrList" where
  "setAttr attrName attr [] = [(attrName, attr)]"
| "setAttr attrName attr ((n, a) # attrs) =
     (if n = attrName then (attrName, attr) # attrs else (n, a) # setAttr attrName attr attrs)"

subsection \<open>ModuleOpConversion\<close>

text \<open>
  \<^verbatim>\<open>getParentOp()\<close> is the operation that owns the block holding the module, if any;
  the pattern only asks whether it is a \<^verbatim>\<open>ModuleOp\<close>, so the parent is represented
  by its operation name.
\<close>

record ModuleOp =
  ModuleOp_getName :: "string option"
  ModuleOp_getBodyRegion :: Region
  ModuleOp_getParentOp :: "string option"

definition isa_ModuleOp :: "string \<Rightarrow> bool" where
  "isa_ModuleOp opName = (opName = ''module'')"

record VM_ModuleOp =
  VM_ModuleOp_name :: string
  VM_ModuleOp_getBodyRegion :: Region

text \<open>
  The rewrite creates the \<^verbatim>\<open>vm.module\<close>, moves the body with \<^verbatim>\<open>takeBody\<close> (which
  leaves the source region empty) and replaces the source module by nothing.
\<close>

record ModuleOpRewrite =
  newModuleOp :: VM_ModuleOp
  erasedOp :: ModuleOp

fun ModuleOpConversion :: "ModuleOp \<Rightarrow> error + ModuleOpRewrite" where
  "ModuleOpConversion srcOp =
     (case ModuleOp_getParentOp srcOp of
        None \<Rightarrow> failure
      | Some parentOp \<Rightarrow>
          if \<not> isa_ModuleOp parentOp then failure
          else let name = (case ModuleOp_getName srcOp of Some n \<Rightarrow> n | None \<Rightarrow> ''module'');
                   created = \<lparr>VM_ModuleOp_name = name, VM_ModuleOp_getBodyRegion = []\<rparr>;
                   moved = created\<lparr>VM_ModuleOp_getBodyRegion := ModuleOp_getBodyRegion srcOp\<rparr>
               in success \<lparr>newModuleOp = moved,
                            erasedOp = srcOp\<lparr>ModuleOp_getBodyRegion := []\<rparr>\<rparr>)"

subsection \<open>FuncOpConversion\<close>

text \<open>
  A function has its symbol name and its signature (\<^verbatim>\<open>getName()\<close>,
  \<^verbatim>\<open>getType()\<close>), a dictionary of further attributes, and a body.
\<close>

record FuncOp =
  FuncOp_getName :: string
  FuncOp_getInputs :: "Type list"
  FuncOp_getResults :: "Type list"
  FuncOp_attrs :: NamedAttrList
  FuncOp_getBody :: Region

text \<open>
  \<^verbatim>\<open>getAttrs()\<close> is the whole dictionary: the symbol name and the type are stored in
  it next to the further attributes.
\<close>

definition getSymbolAttrName :: string where
  "getSymbolAttrName = ''sym_name''"

definition getTypeAttrName :: string where
  "getTypeAttrName = ''type''"

definition FuncOp_getAttrs :: "FuncOp \<Rightarrow> NamedAttrList" where
  "FuncOp_getAttrs funcOp =
     (getSymbolAttrName, StringAttr (FuncOp_getName funcOp))
     # (getTypeAttrName, TypeAttr (FunctionType (FuncOp_getInputs funcOp) (FuncOp_getResults funcOp)))
     # FuncOp_attrs funcOp"

record VM_FuncOp =
  VM_FuncOp_getName :: string
  VM_FuncOp_getInputs :: "Type list"
  VM_FuncOp_getResults :: "Type list"
  VM_FuncOp_attrs :: NamedAttrList
  VM_FuncOp_getBody :: Region

record VM_ExportOp =
  function_ref :: string
  export_name :: string

record FuncOpRewrite =
  newFuncOp :: VM_FuncOp
  exportOps :: "VM_ExportOp list"

definition kRetainedAttributes :: "string list" where
  "kRetainedAttributes = [''iree.reflection'', ''sym_visibility'']"

text \<open>The loop converting the function arguments, returning at the first failure.\<close>

fun convertArguments ::
  "TypeConverter \<Rightarrow> nat \<Rightarrow> Type list \<Rightarrow> SignatureConversion \<Rightarrow> SignatureConversion option" where
  "convertArguments conv i [] signatureConversion = Some signatureConversion"
| "convertArguments conv i (input # inputs) signatureConversion =
     (case convertSignatureArg conv i input signatureConversion of
        None \<Rightarrow> None
      | Some signatureConversion' \<Rightarrow> convertArguments conv (Suc i) inputs signatureConversion')"

text \<open>The loop retaining the attributes of the allow-list that the source carries.\<close>

fun retainAttributes :: "NamedAttrList \<Rightarrow> string list \<Rightarrow> NamedAttrList \<Rightarrow> NamedAttrList" where
  "retainAttributes srcAttrs [] newAttrs = newAttrs"
| "retainAttributes srcAttrs (attrName # rest) newAttrs =
     (case getAttr attrName srcAttrs of
        Some attr \<Rightarrow> retainAttributes srcAttrs rest (setAttr attrName attr newAttrs)
      | None \<Rightarrow> retainAttributes srcAttrs rest newAttrs)"

text \<open>
  \<^verbatim>\<open>applySignatureConversion\<close> gives the entry block of the region the converted
  argument types; a region without blocks is left as it is.
\<close>

fun applySignatureConversion :: "Region \<Rightarrow> SignatureConversion \<Rightarrow> Region" where
  "applySignatureConversion [] signatureConversion = []"
| "applySignatureConversion (Block args ops # blocks) signatureConversion =
     Block (getConvertedTypes signatureConversion) ops # blocks"

fun FuncOpConversion :: "TypeConverter \<Rightarrow> FuncOp \<Rightarrow> error + FuncOpRewrite" where
  "FuncOpConversion conv srcOp =
     (case convertArguments conv 0 (FuncOp_getInputs srcOp)
             (SignatureConversion_init (length (FuncOp_getInputs srcOp))) of
        None \<Rightarrow> failure
      | Some signatureConversion \<Rightarrow>
     (case convertTypes conv (FuncOp_getResults srcOp) [] of
        None \<Rightarrow> failure
      | Some convertedResultTypes \<Rightarrow>
          let created = \<lparr>VM_FuncOp_getName = FuncOp_getName srcOp,
                         VM_FuncOp_getInputs = getConvertedTypes signatureConversion,
                         VM_FuncOp_getResults = convertedResultTypes,
                         VM_FuncOp_attrs = [],
                         VM_FuncOp_getBody = FuncOp_getBody srcOp\<rparr>;
              retained = created\<lparr>VM_FuncOp_attrs :=
                           retainAttributes (FuncOp_getAttrs srcOp) kRetainedAttributes
                             (VM_FuncOp_attrs created)\<rparr>;
              converted = retained\<lparr>VM_FuncOp_getBody :=
                           applySignatureConversion (VM_FuncOp_getBody retained)
                             signatureConversion\<rparr>
          in case getAttr ''iree.module.export'' (FuncOp_getAttrs srcOp) of
               None \<Rightarrow> success \<lparr>newFuncOp = converted, exportOps = []\<rparr>
             | Some exportAttr \<Rightarrow>
                 (case exportAttr of
                    StringAttr exportStr \<Rightarrow>
                      success \<lparr>newFuncOp = converted,
                               exportOps = [\<lparr>function_ref = VM_FuncOp_getName converted,
                                             export_name = exportStr\<rparr>]\<rparr>
                  | UnitAttr \<Rightarrow>
                      success \<lparr>newFuncOp = converted,
                               exportOps = [\<lparr>function_ref = VM_FuncOp_getName converted,
                                             export_name = VM_FuncOp_getName converted\<rparr>]\<rparr>
                  | _ \<Rightarrow> Inl AssertionFailure)))"

section \<open>Linalg-to-LLVM-GPU patterns\<close>

subsection \<open>HALInterfaceWorkgroupOpsConverter\<close>

text \<open>
  The workgroup id, count and size queries carry their axis in the attribute
  \<^verbatim>\<open>dimension\<close>.  The operations are declared outside these sources; the attribute
  is an index attribute, whose integer has 64 bits, and the pattern reads it with
  \<^verbatim>\<open>getSExtValue()\<close> as an \<^verbatim>\<open>int64_t\<close>.  The pattern is a template over the query
  and the three intrinsics for the axes x, y and z.
\<close>

datatype InterfaceOpTy =
    InterfaceWorkgroupIDOp
  | InterfaceWorkgroupCountOp
  | InterfaceWorkgroupSizeOp

record InterfaceWorkgroupOp =
  opKind :: InterfaceOpTy
  dimension :: "64 word"

datatype GPUIntrinsic =
    ROCDL_BlockIdXOp | ROCDL_BlockIdYOp | ROCDL_BlockIdZOp
  | ROCDL_GridDimXOp | ROCDL_GridDimYOp | ROCDL_GridDimZOp
  | ROCDL_BlockDimXOp | ROCDL_BlockDimYOp | ROCDL_BlockDimZOp
  | NVVM_BlockIdXOp | NVVM_BlockIdYOp | NVVM_BlockIdZOp
  | NVVM_GridDimXOp | NVVM_GridDimYOp | NVVM_GridDimZOp
  | NVVM_BlockDimXOp | NVVM_BlockDimYOp | NVVM_BlockDimZOp

text \<open>
  The replacement is built bottom-up: the intrinsic read with its result type, then
  \<^verbatim>\<open>LLVM::SExtOp\<close> with its result type and the read as operand.
\<close>

datatype LLVMOp =
    IntrinsicOp GPUIntrinsic Type
  | LLVM_SExtOp Type LLVMOp

text \<open>
  \<^verbatim>\<open>int32_t index = static_cast<int32_t>(op.dimension().getSExtValue())\<close>: the 64-bit
  value is narrowed to 32 bits before the \<^verbatim>\<open>switch\<close>.
\<close>

fun HALInterfaceWorkgroupOpsConverter ::
  "GPUIntrinsic \<Rightarrow> GPUIntrinsic \<Rightarrow> GPUIntrinsic \<Rightarrow> InterfaceWorkgroupOp \<Rightarrow> error + LLVMOp" where
  "HALInterfaceWorkgroupOpsConverter XOp YOp ZOp op =
     (let i32Type = IntegerType 32 Signless;
          index = (word_of_int (sint (dimension op)) :: 32 word)
      in if sint index = 0 then success (LLVM_SExtOp (IntegerType 64 Signless) (IntrinsicOp XOp i32Type))
         else if sint index = 1 then success (LLVM_SExtOp (IntegerType 64 Signless) (IntrinsicOp YOp i32Type))
         else if sint index = 2 then success (LLVM_SExtOp (IntegerType 64 Signless) (IntrinsicOp ZOp i32Type))
         else failure)"

subsection \<open>populateLLVMConversionPatterns\<close>

datatype Pattern =
    ConvertFuncPattern
  | ConvertIREEBindingOpPattern
  | HALInterfaceWorkgroupOpsConverterPattern InterfaceOpTy GPUIntrinsic GPUIntrinsic GPUIntrinsic

definition populateLLVMConversionPatterns :: "bool \<Rightarrow> Pattern list" where
  "populateLLVMConversionPatterns useROCM =
     [ConvertFuncPattern, ConvertIREEBindingOpPattern] @
     (if useROCM then
        [HALInterfaceWorkgroupOpsConverterPattern InterfaceWorkgroupIDOp
           ROCDL_BlockIdXOp ROCDL_BlockIdYOp ROCDL_BlockIdZOp,
         HALInterfaceWorkgroupOpsConverterPattern InterfaceWorkgroupCountOp
           ROCDL_GridDimXOp ROCDL_GridDimYOp ROCDL_GridDimZOp,
         HALInterfaceWorkgroupOpsConverterPattern InterfaceWorkgroupSizeOp
           ROCDL_BlockDimXOp ROCDL_BlockDimYOp ROCDL_BlockDimZOp]
      else
        [HALInterfaceWorkgroupOpsConverterPattern InterfaceWorkgroupIDOp
           NVVM_BlockIdXOp NVVM_BlockIdYOp NVVM_BlockIdZOp,
         HALInterfaceWorkgroupOpsConverterPattern InterfaceWorkgroupCountOp
           NVVM_GridDimXOp NVVM_GridDimYOp NVVM_GridDimZOp,
         HALInterfaceWorkgroupOpsConverterPattern InterfaceWorkgroupSizeOp
           NVVM_BlockDimXOp NVVM_BlockDimYOp NVVM_BlockDimZOp])"

text \<open>
  Modelled from the spec: the legalization driver, which is part of the conversion
  framework and outside these sources.  For a workgroup query it tries the patterns
  registered for the kind of the operation in registration order; the first success
  is the replacement, a pattern that declines lets the next one be tried, and if none
  succeeds the operation stays illegal and the run fails (\<open>None\<close>).
\<close>

fun legalizeWorkgroupOp :: "Pattern list \<Rightarrow> InterfaceWorkgroupOp \<Rightarrow> LLVMOp option" where
  "legalizeWorkgroupOp [] op = None"
| "legalizeWorkgroupOp (HALInterfaceWorkgroupOpsConverterPattern k XOp YOp ZOp # patterns) op =
     (if k = opKind op
      then (case HALInterfaceWorkgroupOpsConverter XOp YOp ZOp op of
              Inr newOp \<Rightarrow> Some newOp
            | Inl (MatchFailure remark) \<Rightarrow> legalizeWorkgroupOp patterns op
            | Inl AssertionFailure \<Rightarrow> None)
      else legalizeWorkgroupOp patterns op)"
| "legalizeWorkgroupOp (p # patterns) op = legalizeWorkgroupOp patterns op"

subsection \<open>ConvertFunc\<close>

text \<open>
  \<^verbatim>\<open>funcOp.walk(callback)\<close> visits the operations nested in the function in post-order
  (the operations of the regions of an operation, in order, before the operation
  itself) and calls the callback on those that are of the callback's operation type.
\<close>

primrec walkOperation :: "Operation \<Rightarrow> Operation list"
  and walkBlock :: "Block \<Rightarrow> Operation list" where
  "walkOperation (InterfaceBindingSubspanOp binding resultType) =
     [InterfaceBindingSubspanOp binding resultType]"
| "walkOperation (GenericOp opName attrs resultTypes regions) =
     concat (concat (map (map walkBlock) regions))
     @ [GenericOp opName attrs resultTypes regions]"
| "walkBlock (Block args ops) = concat (map walkOperation ops)"

definition walkRegion :: "Region \<Rightarrow> Operation list" where
  "walkRegion region = concat (map walkBlock region)"

fun isa_InterfaceBindingSubspanOp :: "Operation \<Rightarrow> bool" where
  "isa_InterfaceBindingSubspanOp (InterfaceBindingSubspanOp binding resultType) = True"
| "isa_InterfaceBindingSubspanOp _ = False"

definition walk_InterfaceBindingSubspanOp :: "Region \<Rightarrow> Operation list" where
  "walk_InterfaceBindingSubspanOp region = filter isa_InterfaceBindingSubspanOp (walkRegion region)"

text \<open>
  The callback: \<^verbatim>\<open>input.getType().cast<MemRefType>()\<close> requires the result to be a
  memref, and the pointer type is built from its element type and memory space.
\<close>

fun llvmInputType :: "Operation \<Rightarrow> Type option" where
  "llvmInputType (InterfaceBindingSubspanOp binding (MemRefType shape elType memorySpace)) =
     Some (LLVMPointerType elType memorySpace)"
| "llvmInputType _ = None"

fun collectInputTypes :: "Operation list \<Rightarrow> Type list \<Rightarrow> error + Type list" where
  "collectInputTypes [] llvmInputTypes = Inr llvmInputTypes"
| "collectInputTypes (input # inputs) llvmInputTypes =
     (case llvmInputType input of
        None \<Rightarrow> Inl AssertionFailure
      | Some llvmType \<Rightarrow> collectInputTypes inputs (llvmInputTypes @ [llvmType]))"

text \<open>
  \<^verbatim>\<open>isPublic()\<close> reads the visibility attribute of the symbol: public when the
  attribute is absent or says so.
\<close>

definition isPublic :: "FuncOp \<Rightarrow> bool" where
  "isPublic funcOp =
     (case getAttr ''sym_visibility'' (FuncOp_getAttrs funcOp) of
        Some (StringAttr visibility) \<Rightarrow> visibility = ''public''
      | _ \<Rightarrow> True)"

datatype Linkage = Linkage_Private | Linkage_Internal | Linkage_External

record LLVMFuncOp =
  LLVMFuncOp_getName :: string
  LLVMFuncOp_getType :: Type
  LLVMFuncOp_linkage :: Linkage
  LLVMFuncOp_attrs :: NamedAttrList
  LLVMFuncOp_getBody :: Region

text \<open>
  \<^verbatim>\<open>convertRegionTypes\<close> converts the argument types of every block but the entry
  block with the type converter, failing if one is unconvertible, and gives the entry
  block the signature of the signature conversion.  A region without blocks is left
  alone.
\<close>

fun convertBlockSignature :: "TypeConverter \<Rightarrow> Block \<Rightarrow> Block option" where
  "convertBlockSignature conv (Block args ops) =
     (case convertTypes conv args [] of
        None \<Rightarrow> None
      | Some args' \<Rightarrow> Some (Block args' ops))"

fun convertNonEntryRegionTypes :: "TypeConverter \<Rightarrow> Block list \<Rightarrow> Block list option" where
  "convertNonEntryRegionTypes conv [] = Some []"
| "convertNonEntryRegionTypes conv (block # blocks) =
     (case convertBlockSignature conv block of
        None \<Rightarrow> None
      | Some block' \<Rightarrow>
          (case convertNonEntryRegionTypes conv blocks of
             None \<Rightarrow> None
           | Some blocks' \<Rightarrow> Some (block' # blocks')))"

fun convertRegionTypes :: "TypeConverter \<Rightarrow> Region \<Rightarrow> SignatureConversion \<Rightarrow> Region option" where
  "convertRegionTypes conv [] entryConversion = Some []"
| "convertRegionTypes conv (Block args ops # blocks) entryConversion =
     (case convertNonEntryRegionTypes conv blocks of
        None \<Rightarrow> None
      | Some blocks' \<Rightarrow> Some (Block (getConvertedTypes entryConversion) ops # blocks'))"

fun ConvertFunc :: "TypeConverter \<Rightarrow> FuncOp \<Rightarrow> error + LLVMFuncOp" where
  "ConvertFunc typeConverter funcOp =
     (if \<not> isPublic funcOp then failure
      else if \<not> (length (FuncOp_getInputs funcOp) = 0 \<and> length (FuncOp_getResults funcOp) = 0)
      then Inl AssertionFailure
      else
        case collectInputTypes (walk_InterfaceBindingSubspanOp (FuncOp_getBody funcOp)) [] of
          Inl e \<Rightarrow> Inl e
        | Inr llvmInputTypes \<Rightarrow>
            let signatureConverter = addInputs llvmInputTypes (SignatureConversion_init 0);
                funcAttrs = filter (\<lambda>attr. \<not> (fst attr = getSymbolAttrName \<or> fst attr = getTypeAttrName))
                              (FuncOp_getAttrs funcOp);
                llvmFuncType = LLVMFunctionType LLVMVoidType llvmInputTypes;
                newFuncOp = \<lparr>LLVMFuncOp_getName = FuncOp_getName funcOp,
                             LLVMFuncOp_getType = llvmFuncType,
                             LLVMFuncOp_linkage = Linkage_External,
                             LLVMFuncOp_attrs = funcAttrs,
                             LLVMFuncOp_getBody = FuncOp_getBody funcOp\<rparr>
            in case convertRegionTypes typeConverter (LLVMFuncOp_getBody newFuncOp) signatureConverter of
                 None \<Rightarrow> failure
               | Some body \<Rightarrow> success (newFuncOp\<lparr>LLVMFuncOp_getBody := body\<rparr>))"

subsection \<open>ConvertIREEBindingOp\<close>

text \<open>
  The binding declaration that a reference names (\<^verbatim>\<open>hal.interface.binding\<close>, declared
  outside these sources) carries its ordinal in the 32-bit attribute \<^verbatim>\<open>binding\<close>, which
  the pattern reads with \<^verbatim>\<open>getZExtValue()\<close>.  \<^verbatim>\<open>lookupNearestSymbolFrom\<close> is the
  symbol table: a map from symbols to the operations that declare them.
\<close>

datatype SymbolOp =
    InterfaceBindingOp "32 word"
  | OtherSymbolOp string

type_synonym SymbolTable = "string \<Rightarrow> SymbolOp option"

fun LLVMFuncOp_getParams :: "LLVMFuncOp \<Rightarrow> Type list" where
  "LLVMFuncOp_getParams llvmFuncOp =
     (case LLVMFuncOp_getType llvmFuncOp of
        LLVMFunctionType result params \<Rightarrow> params
      | _ \<Rightarrow> [])"

definition getNumArguments :: "LLVMFuncOp \<Rightarrow> nat" where
  "getNumArguments llvmFuncOp = length (LLVMFuncOp_getParams llvmFuncOp)"

text \<open>
  \<^verbatim>\<open>getArgument(i)\<close> is the \<open>i\<close>-th argument of the entry block; there is none when
  the body has no block or \<open>i\<close> is out of range.
\<close>

fun getArgument :: "LLVMFuncOp \<Rightarrow> nat \<Rightarrow> Value option" where
  "getArgument llvmFuncOp i =
     (case LLVMFuncOp_getBody llvmFuncOp of
        [] \<Rightarrow> None
      | Block args ops # blocks \<Rightarrow>
          if i < length args then Some (BlockArgument i (args ! i)) else None)"

fun hasStaticShape :: "Type \<Rightarrow> bool" where
  "hasStaticShape (MemRefType shape elType memorySpace) = (\<forall>d \<in> set shape. d \<noteq> None)"
| "hasStaticShape _ = False"

text \<open>
  \<^verbatim>\<open>MemRefDescriptor::fromStaticShape\<close> builds the descriptor of a statically shaped
  memref from its type and its base pointer.
\<close>

datatype MemRefDescriptor = fromStaticShape Type Value

text \<open>
  In the order of the source: the enclosing \<^verbatim>\<open>LLVMFuncOp\<close> (the pattern bails out
  until there is one), the assertion on its number of arguments, the cast of the
  operation, the lookup of the binding declaration and its cast, the argument at the
  ordinal of the binding, and the descriptor (the dynamically shaped case is the
  \<^verbatim>\<open>assert(0)\<close> of the source).
\<close>

fun ConvertIREEBindingOp ::
  "LLVMFuncOp option \<Rightarrow> SymbolTable \<Rightarrow> Operation \<Rightarrow> error + MemRefDescriptor" where
  "ConvertIREEBindingOp parentLLVMFuncOp symbolTable op =
     (case parentLLVMFuncOp of
        None \<Rightarrow> failure
      | Some llvmFuncOp \<Rightarrow>
          if \<not> getNumArguments llvmFuncOp > 0 then Inl AssertionFailure
          else
            (case op of
               GenericOp opName attrs resultTypes regions \<Rightarrow> Inl AssertionFailure
             | InterfaceBindingSubspanOp binding resultType \<Rightarrow>
                 (case symbolTable binding of
                    Some (InterfaceBindingOp ordinal) \<Rightarrow>
                      (case getArgument llvmFuncOp (unat ordinal) of
                         None \<Rightarrow> Inl AssertionFailure
                       | Some llvmBufferBasePtr \<Rightarrow>
                           (case resultType of
                              MemRefType shape elType memorySpace \<Rightarrow>
                                if hasStaticShape resultType
                                then success (fromStaticShape resultType llvmBufferBasePtr)
                                else Inl AssertionFailure
                            | _ \<Rightarrow> Inl AssertionFailure))
                  | _ \<Rightarrow> Inl AssertionFailure)))"

section \<open>The vocabulary of the specification\<close>

text \<open>
  The definitions of this section follow the words of the specification, not the
  sources; the theorems compare the patterns with them.
\<close>

text \<open>Relation and signedness of a comparison predicate and of a VM comparison.\<close>

datatype Relation = Equal | NotEqual | LessThan | LessOrEqual | GreaterThan | GreaterOrEqual

fun predicateRelation :: "CmpIPredicate \<Rightarrow> Relation" where
  "predicateRelation eq = Equal"
| "predicateRelation ne = NotEqual"
| "predicateRelation slt = LessThan"
| "predicateRelation sle = LessOrEqual"
| "predicateRelation sgt = GreaterThan"
| "predicateRelation sge = GreaterOrEqual"
| "predicateRelation ult = LessThan"
| "predicateRelation ule = LessOrEqual"
| "predicateRelation ugt = GreaterThan"
| "predicateRelation uge = GreaterOrEqual"

fun predicateSignedness :: "CmpIPredicate \<Rightarrow> Signedness" where
  "predicateSignedness eq = Signless"
| "predicateSignedness ne = Signless"
| "predicateSignedness slt = Signed"
| "predicateSignedness sle = Signed"
| "predicateSignedness sgt = Signed"
| "predicateSignedness sge = Signed"
| "predicateSignedness ult = Unsigned"
| "predicateSignedness ule = Unsigned"
| "predicateSignedness ugt = Unsigned"
| "predicateSignedness uge = Unsigned"

fun instructionRelation :: "VMOp \<Rightarrow> Relation option" where
  "instructionRelation (VM_CmpEQI32Op t a b) = Some Equal"
| "instructionRelation (VM_CmpNEI32Op t a b) = Some NotEqual"
| "instructionRelation (VM_CmpLTI32SOp t a b) = Some LessThan"
| "instructionRelation (VM_CmpLTEI32SOp t a b) = Some LessOrEqual"
| "instructionRelation (VM_CmpGTI32SOp t a b) = Some GreaterThan"
| "instructionRelation (VM_CmpGTEI32SOp t a b) = Some GreaterOrEqual"
| "instructionRelation (VM_CmpLTI32UOp t a b) = Some LessThan"
| "instructionRelation (VM_CmpLTEI32UOp t a b) = Some LessOrEqual"
| "instructionRelation (VM_CmpGTI32UOp t a b) = Some GreaterThan"
| "instructionRelation (VM_CmpGTEI32UOp t a b) = Some GreaterOrEqual"
| "instructionRelation _ = None"

fun instructionSignedness :: "VMOp \<Rightarrow> Signedness option" where
  "instructionSignedness (VM_CmpEQI32Op t a b) = Some Signless"
| "instructionSignedness (VM_CmpNEI32Op t a b) = Some Signless"
| "instructionSignedness (VM_CmpLTI32SOp t a b) = Some Signed"
| "instructionSignedness (VM_CmpLTEI32SOp t a b) = Some Signed"
| "instructionSignedness (VM_CmpGTI32SOp t a b) = Some Signed"
| "instructionSignedness (VM_CmpGTEI32SOp t a b) = Some Signed"
| "instructionSignedness (VM_CmpLTI32UOp t a b) = Some Unsigned"
| "instructionSignedness (VM_CmpLTEI32UOp t a b) = Some Unsigned"
| "instructionSignedness (VM_CmpGTI32UOp t a b) = Some Unsigned"
| "instructionSignedness (VM_CmpGTEI32UOp t a b) = Some Unsigned"
| "instructionSignedness _ = None"

fun instructionOperands :: "VMOp \<Rightarrow> Value list" where
  "instructionOperands (VM_CmpEQI32Op t a b) = [a, b]"
| "instructionOperands (VM_CmpNEI32Op t a b) = [a, b]"
| "instructionOperands (VM_CmpLTI32SOp t a b) = [a, b]"
| "instructionOperands (VM_CmpLTEI32SOp t a b) = [a, b]"
| "instructionOperands (VM_CmpGTI32SOp t a b) = [a, b]"
| "instructionOperands (VM_CmpGTEI32SOp t a b) = [a, b]"
| "instructionOperands (VM_CmpLTI32UOp t a b) = [a, b]"
| "instructionOperands (VM_CmpLTEI32UOp t a b) = [a, b]"
| "instructionOperands (VM_CmpGTI32UOp t a b) = [a, b]"
| "instructionOperands (VM_CmpGTEI32UOp t a b) = [a, b]"
| "instructionOperands (VM_ShlI32Op t a amount) = [a]"
| "instructionOperands (VM_SelectI32Op t c a b) = [c, a, b]"
| "instructionOperands (VM_CallOp callee ts operands) = operands"
| "instructionOperands _ = []"

text \<open>
  The selection table of the workgroup intrinsics, indexed by the backend flag, the
  query and the axis.
\<close>

fun intrinsicTable :: "bool \<Rightarrow> InterfaceOpTy \<Rightarrow> nat \<Rightarrow> GPUIntrinsic option" where
  "intrinsicTable True InterfaceWorkgroupIDOp axis =
     [0 \<mapsto> ROCDL_BlockIdXOp, 1 \<mapsto> ROCDL_BlockIdYOp, 2 \<mapsto> ROCDL_BlockIdZOp] axis"
| "intrinsicTable True InterfaceWorkgroupCountOp axis =
     [0 \<mapsto> ROCDL_GridDimXOp, 1 \<mapsto> ROCDL_GridDimYOp, 2 \<mapsto> ROCDL_GridDimZOp] axis"
| "intrinsicTable True InterfaceWorkgroupSizeOp axis =
     [0 \<mapsto> ROCDL_BlockDimXOp, 1 \<mapsto> ROCDL_BlockDimYOp, 2 \<mapsto> ROCDL_BlockDimZOp] axis"
| "intrinsicTable False InterfaceWorkgroupIDOp axis =
     [0 \<mapsto> NVVM_BlockIdXOp, 1 \<mapsto> NVVM_BlockIdYOp, 2 \<mapsto> NVVM_BlockIdZOp] axis"
| "intrinsicTable False InterfaceWorkgroupCountOp axis =
     [0 \<mapsto> NVVM_GridDimXOp, 1 \<mapsto> NVVM_GridDimYOp, 2 \<mapsto> NVVM_GridDimZOp] axis"
| "intrinsicTable False InterfaceWorkgroupSizeOp axis =
     [0 \<mapsto> NVVM_BlockDimXOp, 1 \<mapsto> NVVM_BlockDimYOp, 2 \<mapsto> NVVM_BlockDimZOp] axis"

text \<open>
  The outermost module: its parent is absent or is not itself a module.
\<close>

definition outermost :: "ModuleOp \<Rightarrow> bool" where
  "outermost m = (case ModuleOp_getParentOp m of None \<Rightarrow> True | Some p \<Rightarrow> \<not> isa_ModuleOp p)"

text \<open>
  The binding references of a function body in the pre-order walk of the
  specification, the symbols they name, and the distinct bindings in the order in which
  they are first encountered.
\<close>

primrec preOrderOperation :: "Operation \<Rightarrow> Operation list"
  and preOrderBlock :: "Block \<Rightarrow> Operation list" where
  "preOrderOperation (InterfaceBindingSubspanOp binding resultType) =
     [InterfaceBindingSubspanOp binding resultType]"
| "preOrderOperation (GenericOp opName attrs resultTypes regions) =
     GenericOp opName attrs resultTypes regions
     # concat (concat (map (map preOrderBlock) regions))"
| "preOrderBlock (Block args ops) = concat (map preOrderOperation ops)"

definition preOrderReferences :: "Region \<Rightarrow> Operation list" where
  "preOrderReferences region =
     filter isa_InterfaceBindingSubspanOp (concat (map preOrderBlock region))"

fun bindingSymbols :: "Operation list \<Rightarrow> string list" where
  "bindingSymbols [] = []"
| "bindingSymbols (InterfaceBindingSubspanOp binding resultType # ops) = binding # bindingSymbols ops"
| "bindingSymbols (GenericOp opName attrs resultTypes regions # ops) = bindingSymbols ops"

definition firstEncountered :: "'a list \<Rightarrow> 'a list" where
  "firstEncountered xs = rev (remdups (rev xs))"

definition distinctBindings :: "FuncOp \<Rightarrow> string list" where
  "distinctBindings funcOp =
     firstEncountered (bindingSymbols (preOrderReferences (FuncOp_getBody funcOp)))"

fun isPointerType :: "Type \<Rightarrow> bool" where
  "isPointerType (LLVMPointerType elType memorySpace) = True"
| "isPointerType _ = False"

section \<open>Example inputs\<close>

text \<open>
  A dispatch function that refers to two bindings, \<^verbatim>\<open>@arg0\<close> (ordinal 0, a memref of
  \<^verbatim>\<open>f32\<close>) and \<^verbatim>\<open>@ret0\<close> (ordinal 1, a memref of \<^verbatim>\<open>i32\<close>), in four variants: the
  references in the order of the ordinals, in the opposite order, the same binding
  referred to twice, and \<^verbatim>\<open>@arg0\<close> referred to twice before \<^verbatim>\<open>@ret0\<close>.
\<close>

definition memref_4xf32 :: Type where
  "memref_4xf32 = MemRefType [Some 4] (FloatType 32) 0"

definition memref_4xi32 :: Type where
  "memref_4xi32 = MemRefType [Some 4] (IntegerType 32 Signless) 0"

definition exampleSymbolTable :: SymbolTable where
  "exampleSymbolTable =
     [''arg0'' \<mapsto> InterfaceBindingOp 0, ''ret0'' \<mapsto> InterfaceBindingOp 1]"

definition exampleTypeConverter :: TypeConverter where
  "exampleTypeConverter t = Some [t]"

definition dispatchWith :: "Operation list \<Rightarrow> FuncOp" where
  "dispatchWith ops =
     \<lparr>FuncOp_getName = ''dispatch'', FuncOp_getInputs = [], FuncOp_getResults = [],
      FuncOp_attrs = [],
      FuncOp_getBody = [Block [] (ops @ [GenericOp ''std.return'' [] [] []])]\<rparr>"

definition dispatchInOrder :: FuncOp where
  "dispatchInOrder = dispatchWith
     [InterfaceBindingSubspanOp ''arg0'' memref_4xf32, InterfaceBindingSubspanOp ''ret0'' memref_4xi32]"

definition dispatchSwapped :: FuncOp where
  "dispatchSwapped = dispatchWith
     [InterfaceBindingSubspanOp ''ret0'' memref_4xi32, InterfaceBindingSubspanOp ''arg0'' memref_4xf32]"

definition dispatchTwice :: FuncOp where
  "dispatchTwice = dispatchWith
     [InterfaceBindingSubspanOp ''arg0'' memref_4xf32, InterfaceBindingSubspanOp ''arg0'' memref_4xf32]"

definition dispatchRepeated :: FuncOp where
  "dispatchRepeated = dispatchWith
     [InterfaceBindingSubspanOp ''arg0'' memref_4xf32, InterfaceBindingSubspanOp ''arg0'' memref_4xf32,
      InterfaceBindingSubspanOp ''ret0'' memref_4xi32]"

definition loweredWith :: "Type list \<Rightarrow> Operation list \<Rightarrow> LLVMFuncOp" where
  "loweredWith params ops =
     \<lparr>LLVMFuncOp_getName = ''dispatch'',
      LLVMFuncOp_getType = LLVMFunctionType LLVMVoidType params,
      LLVMFuncOp_linkage = Linkage_External,
      LLVMFuncOp_attrs = [],
      LLVMFuncOp_getBody = [Block params (ops @ [GenericOp ''std.return'' [] [] []])]\<rparr>"

text \<open>
  A function of the standard dialect with one \<^verbatim>\<open>i32\<close> argument and result, carrying
  the attributes given.
\<close>

definition exampleFunc :: "NamedAttrList \<Rightarrow> FuncOp" where
  "exampleFunc attrs =
     \<lparr>FuncOp_getName = ''add_one'',
      FuncOp_getInputs = [IntegerType 32 Signless],
      FuncOp_getResults = [IntegerType 32 Signless],
      FuncOp_attrs = attrs,
      FuncOp_getBody = [Block [IntegerType 32 Signless] [GenericOp ''std.return'' [] [] []]]\<rparr>"

definition exampleSelect :: "Type \<Rightarrow> SelectOpOperandAdaptor" where
  "exampleSelect ty =
     \<lparr>condition = BlockArgument 0 (IntegerType 1 Signless),
      true_value = BlockArgument 1 ty,
      false_value = BlockArgument 2 ty\<rparr>"

definition exampleModule :: "string option \<Rightarrow> ModuleOp" where
  "exampleModule parent =
     \<lparr>ModuleOp_getName = Some ''inner'',
      ModuleOp_getBodyRegion = [Block [] [GenericOp ''module_terminator'' [] [] []]],
      ModuleOp_getParentOp = parent\<rparr>"

text \<open>A type converter that converts the 32-bit integers and nothing else.\<close>

definition i32OnlyConverter :: TypeConverter where
  "i32OnlyConverter t = (if t = IntegerType 32 Signless then Some [t] else None)"

section \<open>Auxiliary facts\<close>

subsection \<open>Types and integers\<close>

lemma signless_width_iff:
  "(isSignlessInteger ty \<and> getIntOrFloatBitWidth ty = Some w) = (ty = IntegerType w Signless)"
  by (cases ty rule: isSignlessInteger.cases) auto

lemma getInt_range:
  assumes "w = 1 \<or> w = 32"
  shows "- (2 ^ 31) \<le> getInt (IntegerType w s) v \<and> getInt (IntegerType w s) v < 2 ^ 31"
  using assms
proof
  assume "w = 1"
  then show ?thesis by (auto simp: getInt_def getValue_def)
next
  assume w: "w = 32"
  have "0 \<le> v mod 2 ^ 32" "v mod 2 ^ 32 < 2 ^ 32" by simp_all
  then show ?thesis using w by (auto simp: getInt_def getValue_def)
qed

lemma getInt_zero_iff:
  "getInt (IntegerType w s) v = 0 \<longleftrightarrow> v mod 2 ^ w = 0"
proof -
  define u where "u = v mod 2 ^ w"
  have b: "0 \<le> u" "u < 2 ^ w" by (simp_all add: u_def)
  have g: "getInt (IntegerType w s) v =
      (if 0 < w \<and> 2 ^ (w - 1) \<le> nat u then int (nat u) - 2 ^ w else int (nat u))"
    by (simp add: getInt_def getValue_def u_def)
  have "(if 0 < w \<and> 2 ^ (w - 1) \<le> nat u then int (nat u) - 2 ^ w else int (nat u)) = 0 \<longleftrightarrow> u = 0"
    using b by auto
  then have "getInt (IntegerType w s) v = 0 \<longleftrightarrow> u = 0" by (simp only: g)
  then show ?thesis by (simp only: u_def)
qed

text \<open>
  The amount of a shift whose operand has the 32-bit type of the operation fits the
  \<^verbatim>\<open>uint64_t\<close> that \<^verbatim>\<open>getZExtValue\<close> returns.
\<close>

lemma typed_amount:
  assumes "getType v = IntegerType 32 Signless" "m_ConstantInt v = Some amount"
  shows "unsignedValue amount < 2 ^ 32"
proof (cases v)
  case (IntegerConstant ty x)
  with assms have "amount = getValue (IntegerType 32 Signless) x" by (auto split: if_splits)
  then show ?thesis by (simp add: getValue_def)
qed (use assms in auto)

subsection \<open>The shift pattern, case by case\<close>

lemma shift_other_type:
  "ShiftLeftOp_getType srcOp \<noteq> IntegerType 32 Signless \<Longrightarrow>
     ShiftLeftOpConversion srcOp ad = failure"
  using signless_width_iff[of "ShiftLeftOp_getType srcOp" 32]
  by (auto simp: ShiftLeftOpConversion_def Let_def)

lemma shift_not_constant:
  "m_ConstantInt (rhs ad) = None \<Longrightarrow> ShiftLeftOpConversion srcOp ad = failure"
  by (auto simp: ShiftLeftOpConversion_def Let_def)

lemma shift_too_large:
  assumes "getType (rhs ad) = ShiftLeftOp_getType srcOp" "m_ConstantInt (rhs ad) = Some amount"
    "32 < unsignedValue amount"
  shows "ShiftLeftOpConversion srcOp ad = failure"
proof (cases "ShiftLeftOp_getType srcOp = IntegerType 32 Signless")
  case True
  with assms typed_amount[of "rhs ad" amount] have "unsignedValue amount < 2 ^ 32" by simp
  then have "unsignedValue amount < 2 ^ 64" by (rule less_trans) simp
  with assms True show ?thesis
    by (cases amount) (auto simp: ShiftLeftOpConversion_def Let_def)
next
  case False
  then show ?thesis by (rule shift_other_type)
qed

lemma shift_in_range:
  assumes "ShiftLeftOp_getType srcOp = IntegerType 32 Signless" "m_ConstantInt (rhs ad) = Some amount"
    "unsignedValue amount \<le> 32"
  shows "ShiftLeftOpConversion srcOp ad =
     success (VM_ShlI32Op (IntegerType 32 Signless) (lhs ad)
        (IntegerAttr (IntegerType 8 Signless) (int (unsignedValue amount))))"
proof -
  from assms(3) have "unsignedValue amount < 2 ^ 64" by (rule le_less_trans) simp
  with assms show ?thesis
    by (cases amount) (auto simp: ShiftLeftOpConversion_def Let_def)
qed

lemma shift_succeeds_only:
  assumes "succeeds (ShiftLeftOpConversion srcOp ad)"
  shows "ShiftLeftOp_getType srcOp = IntegerType 32 Signless \<and>
     (\<exists>amount. m_ConstantInt (rhs ad) = Some amount \<and> unsignedValue amount \<le> 32)"
proof -
  have ty: "ShiftLeftOp_getType srcOp = IntegerType 32 Signless"
    using assms shift_other_type[of srcOp ad]
    by (cases "ShiftLeftOp_getType srcOp = IntegerType 32 Signless") auto
  obtain amount where am: "m_ConstantInt (rhs ad) = Some amount"
    using assms shift_not_constant[of ad srcOp] by (cases "m_ConstantInt (rhs ad)") auto
  have "unsignedValue amount \<le> 32"
    using assms ty am
    by (cases amount) (auto simp: ShiftLeftOpConversion_def Let_def split: if_splits)
  with ty am show ?thesis by blast
qed

subsection \<open>The constant pattern, case by case\<close>

lemma ConstantOpConversion_integer:
  "ConstantOpConversion \<lparr>ConstantOp_getValue = IntegerAttr (IntegerType w s) v\<rparr> =
     (if w = 1 \<or> w = 32
      then (if getInt (IntegerType w s) v = 0 then success VM_ConstI32ZeroOp
            else success (VM_ConstI32Op (word_of_int (getInt (IntegerType w s) v))))
      else failureWithRemark ''unsupported bit width for dialect constant'')"
  by (simp add: Let_def build_ConstI32Op_def)

lemma ConstantOpConversion_not_integer:
  "(\<And>ty v. ConstantOp_getValue srcOp \<noteq> IntegerAttr ty v) \<Longrightarrow>
     ConstantOpConversion srcOp = failureWithRemark ''unsupported const type for dialect''"
  by (cases "ConstantOp_getValue srcOp") auto

text \<open>The 32-bit constant built from a 1-bit or 32-bit attribute reads back as its value.\<close>

lemma ConstI32Op_exact:
  assumes "w = 1 \<or> w = 32"
  shows "sint (word_of_int (getInt (IntegerType w s) v) :: 32 word) = getInt (IntegerType w s) v"
  using getInt_range[OF assms, of s v]
  by (simp add: sint_sbintrunc' signed_take_bit_int_eq_self)

subsection \<open>Attribute dictionaries\<close>

lemma map_of_setAttr: "map_of (setAttr k v xs) = (map_of xs)(k \<mapsto> v)"
  by (induction xs) (auto simp: fun_eq_iff)

lemma getAttr_retainAttributes:
  "getAttr k (retainAttributes src names new) =
     (if k \<in> set names \<and> getAttr k src \<noteq> None then getAttr k src else getAttr k new)"
  by (induction names arbitrary: new) (auto simp: getAttr_def map_of_setAttr split: option.splits)

lemma FuncOpConversion_success:
  assumes "FuncOpConversion conv srcOp = success r"
  shows "VM_FuncOp_attrs (newFuncOp r) = retainAttributes (FuncOp_getAttrs srcOp) kRetainedAttributes []"
    and "VM_FuncOp_getName (newFuncOp r) = FuncOp_getName srcOp"
    and "exportOps r =
          (case getAttr ''iree.module.export'' (FuncOp_getAttrs srcOp) of
             None \<Rightarrow> []
           | Some exportAttr \<Rightarrow>
               [\<lparr>function_ref = FuncOp_getName srcOp,
                 export_name = (case exportAttr of StringAttr s \<Rightarrow> s | _ \<Rightarrow> FuncOp_getName srcOp)\<rparr>])"
  using assms
  by (auto simp: Let_def split: option.splits Attribute.splits)

lemma getAttr_further:
  "attrName \<noteq> ''sym_name'' \<Longrightarrow> attrName \<noteq> ''type'' \<Longrightarrow>
     getAttr attrName (FuncOp_getAttrs srcOp) = getAttr attrName (FuncOp_attrs srcOp)"
  by (simp add: getAttr_def FuncOp_getAttrs_def getSymbolAttrName_def getTypeAttrName_def)

text \<open>The example function converts, with or without the export marker.\<close>

lemma exampleFunc_converted:
  "getAttr ''iree.module.export'' attrs = None \<Longrightarrow>
   FuncOpConversion exampleTypeConverter (exampleFunc attrs) =
     success \<lparr>newFuncOp =
                \<lparr>VM_FuncOp_getName = ''add_one'',
                 VM_FuncOp_getInputs = [IntegerType 32 Signless],
                 VM_FuncOp_getResults = [IntegerType 32 Signless],
                 VM_FuncOp_attrs = retainAttributes (FuncOp_getAttrs (exampleFunc attrs)) kRetainedAttributes [],
                 VM_FuncOp_getBody = [Block [IntegerType 32 Signless] [GenericOp ''std.return'' [] [] []]]\<rparr>,
              exportOps = []\<rparr>"
  by (simp add: exampleFunc_def exampleTypeConverter_def getAttr_def FuncOp_getAttrs_def
      getSymbolAttrName_def getTypeAttrName_def SignatureConversion_init_def addInputsAt_def
      addInputs_def getConvertedTypes_def Let_def)

lemma exampleFunc_exported:
  "succeeds (FuncOpConversion exampleTypeConverter (exampleFunc [(''iree.module.export'', StringAttr s)]))"
  "succeeds (FuncOpConversion exampleTypeConverter (exampleFunc [(''iree.module.export'', UnitAttr)]))"
  by (simp_all add: exampleFunc_def exampleTypeConverter_def getAttr_def FuncOp_getAttrs_def
      getSymbolAttrName_def getTypeAttrName_def SignatureConversion_init_def addInputsAt_def
      addInputs_def getConvertedTypes_def Let_def)

lemma succeeds_projr: "succeeds x \<Longrightarrow> x = success (projr x)"
  by (cases x) auto

subsection \<open>The call pattern\<close>

lemma convertResultTypes_acc:
  "convertResultTypes conv ts acc =
     (if \<forall>t\<in>set ts. convertType conv t \<noteq> None
      then Some (acc @ map (\<lambda>t. the (convertType conv t)) ts) else None)"
  by (induction ts arbitrary: acc) (auto split: option.splits simp del: convertType.simps)

subsection \<open>The walk over a function body\<close>

lemma filter_concat_map: "filter P (concat xss) = concat (map (filter P) xss)"
  by (induction xss) auto

lemma concat_map_cong:
  "(\<And>x. x \<in> set xs \<Longrightarrow> f x = g x) \<Longrightarrow> concat (map f xs) = concat (map g xs)"
  by (induction xs) auto

lemma concat_concat_map:
  "concat (concat (map (map f) xss)) = concat (map (\<lambda>xs. concat (map f xs)) xss)"
  by (induction xss) auto

text \<open>
  The binding references own no region, so the post-order walk of the sources meets
  them in the same order as the pre-order walk of the specification.
\<close>

lemma walk_pre_post:
  "filter isa_InterfaceBindingSubspanOp (walkOperation op) =
     filter isa_InterfaceBindingSubspanOp (preOrderOperation op)"
  "filter isa_InterfaceBindingSubspanOp (walkBlock b) =
     filter isa_InterfaceBindingSubspanOp (preOrderBlock b)"
proof (induction op and b)
  case (InterfaceBindingSubspanOp binding resultType)
  then show ?case by simp
next
  case (GenericOp n a r regions)
  have "concat (map (\<lambda>region. concat (map (\<lambda>b. filter isa_InterfaceBindingSubspanOp (walkBlock b)) region)) regions)
      = concat (map (\<lambda>region. concat (map (\<lambda>b. filter isa_InterfaceBindingSubspanOp (preOrderBlock b)) region)) regions)"
    by (intro concat_map_cong) (simp add: GenericOp)
  then show ?case
    by (simp only: walkOperation.simps preOrderOperation.simps filter_append filter.simps
        isa_InterfaceBindingSubspanOp.simps if_False append_Nil2 filter_concat_map map_concat
        map_map comp_def concat_concat_map)
next
  case (Block args ops)
  have "concat (map (\<lambda>op. filter isa_InterfaceBindingSubspanOp (walkOperation op)) ops)
      = concat (map (\<lambda>op. filter isa_InterfaceBindingSubspanOp (preOrderOperation op)) ops)"
    by (intro concat_map_cong) (simp add: Block)
  then show ?case
    by (simp only: walkBlock.simps preOrderBlock.simps filter_concat_map map_map comp_def)
qed

lemma walk_is_preOrder:
  "walk_InterfaceBindingSubspanOp region = preOrderReferences region"
  unfolding walk_InterfaceBindingSubspanOp_def preOrderReferences_def walkRegion_def
    filter_concat_map map_map comp_def
  by (intro concat_map_cong) (simp add: walk_pre_post)

lemma references_need_block: "walk_InterfaceBindingSubspanOp [] = []"
  by (simp add: walk_InterfaceBindingSubspanOp_def walkRegion_def)

lemma length_bindingSymbols:
  "length (bindingSymbols (filter isa_InterfaceBindingSubspanOp ops)) =
     length (filter isa_InterfaceBindingSubspanOp ops)"
  by (induction ops rule: bindingSymbols.induct) auto

lemma length_firstEncountered: "length (firstEncountered xs) \<le> length xs"
  unfolding firstEncountered_def using length_remdups_leq[of "rev xs"] by simp

lemma firstEncountered_distinct: "distinct xs \<Longrightarrow> firstEncountered xs = xs"
  by (simp add: firstEncountered_def distinct_remdups_id)

subsection \<open>What a successful ConvertFunc has done\<close>

lemma collectInputTypes_Inr:
  "collectInputTypes ops acc = Inr tys \<Longrightarrow>
     tys = acc @ map (\<lambda>op. the (llvmInputType op)) ops \<and> (\<forall>op\<in>set ops. llvmInputType op \<noteq> None)"
proof (induction ops arbitrary: acc)
  case Nil
  then show ?case by simp
next
  case (Cons a ops)
  then obtain t where t: "llvmInputType a = Some t"
    and rest: "collectInputTypes ops (acc @ [t]) = Inr tys"
    by (auto split: option.splits)
  from Cons.IH[OF rest] t show ?case by simp
qed

lemma convertRegionTypes_Some:
  "convertRegionTypes conv body sc = Some body' \<Longrightarrow>
     (body = [] \<and> body' = []) \<or>
     (\<exists>args ops rest rest'. body = Block args ops # rest \<and>
        body' = Block (getConvertedTypes sc) ops # rest')"
  by (cases "(conv, body, sc)" rule: convertRegionTypes.cases) (auto split: option.splits)

lemma llvmInputType_pointer: "llvmInputType op = Some t \<Longrightarrow> isPointerType t"
  by (cases op rule: llvmInputType.cases) auto

lemma llvmInputType_memref:
  "llvmInputType (InterfaceBindingSubspanOp b ty) \<noteq> None \<Longrightarrow>
     \<exists>shape elType ms. ty = MemRefType shape elType ms"
  by (cases ty) auto

lemma ConvertFunc_success:
  assumes "ConvertFunc typeConverter funcOp = success llvmFuncOp"
  defines "refs \<equiv> walk_InterfaceBindingSubspanOp (FuncOp_getBody funcOp)"
  defines "tys \<equiv> map (\<lambda>op. the (llvmInputType op)) refs"
  shows "isPublic funcOp"
    and "FuncOp_getInputs funcOp = []" and "FuncOp_getResults funcOp = []"
    and "\<forall>op\<in>set refs. llvmInputType op \<noteq> None"
    and "LLVMFuncOp_getType llvmFuncOp = LLVMFunctionType LLVMVoidType tys"
    and "LLVMFuncOp_getName llvmFuncOp = FuncOp_getName funcOp"
    and "(FuncOp_getBody funcOp = [] \<and> LLVMFuncOp_getBody llvmFuncOp = []) \<or>
         (\<exists>args ops rest rest'. FuncOp_getBody funcOp = Block args ops # rest \<and>
             LLVMFuncOp_getBody llvmFuncOp = Block tys ops # rest')"
proof -
  from assms(1) show pub: "isPublic funcOp" by (auto split: if_splits)
  from assms(1) pub show "FuncOp_getInputs funcOp = []" "FuncOp_getResults funcOp = []"
    by (auto split: if_splits)
  with assms(1) pub obtain llvmInputTypes body where
      c: "collectInputTypes refs [] = Inr llvmInputTypes"
    and r: "convertRegionTypes typeConverter (FuncOp_getBody funcOp)
              (addInputs llvmInputTypes (SignatureConversion_init 0)) = Some body"
    and g: "llvmFuncOp = \<lparr>LLVMFuncOp_getName = FuncOp_getName funcOp,
                 LLVMFuncOp_getType = LLVMFunctionType LLVMVoidType llvmInputTypes,
                 LLVMFuncOp_linkage = Linkage_External,
                 LLVMFuncOp_attrs =
                   filter (\<lambda>attr. \<not> (fst attr = getSymbolAttrName \<or> fst attr = getTypeAttrName))
                     (FuncOp_getAttrs funcOp),
                 LLVMFuncOp_getBody = body\<rparr>"
    by (auto simp: refs_def Let_def split: if_splits sum.splits option.splits)
  from collectInputTypes_Inr[OF c] have t: "llvmInputTypes = tys" and
    ok: "\<forall>op\<in>set refs. llvmInputType op \<noteq> None" by (simp_all add: tys_def)
  from ok show "\<forall>op\<in>set refs. llvmInputType op \<noteq> None" .
  from g t show "LLVMFuncOp_getType llvmFuncOp = LLVMFunctionType LLVMVoidType tys" by simp
  from g show "LLVMFuncOp_getName llvmFuncOp = FuncOp_getName funcOp" by simp
  have "getConvertedTypes (addInputs llvmInputTypes (SignatureConversion_init 0)) = tys"
    by (simp add: getConvertedTypes_def addInputs_def SignatureConversion_init_def t)
  with convertRegionTypes_Some[OF r] g
  show "(FuncOp_getBody funcOp = [] \<and> LLVMFuncOp_getBody llvmFuncOp = []) \<or>
         (\<exists>args ops rest rest'. FuncOp_getBody funcOp = Block args ops # rest \<and>
             LLVMFuncOp_getBody llvmFuncOp = Block tys ops # rest')"
    by auto
qed

text \<open>
  The resolution of one reference inside the function that ConvertFunc has produced:
  the argument at the ordinal of the binding, if there is one.
\<close>

lemma ConvertIREEBindingOp_after_ConvertFunc:
  assumes conv: "ConvertFunc typeConverter funcOp = success llvmFuncOp"
    and mem: "InterfaceBindingSubspanOp binding resultType
                \<in> set (walk_InterfaceBindingSubspanOp (FuncOp_getBody funcOp))"
    and sym: "symbolTable binding = Some (InterfaceBindingOp ordinal)"
    and static: "hasStaticShape resultType"
  shows "ConvertIREEBindingOp (Some llvmFuncOp) symbolTable (InterfaceBindingSubspanOp binding resultType) =
           (if unat ordinal < length (LLVMFuncOp_getParams llvmFuncOp)
            then success (fromStaticShape resultType
                   (BlockArgument (unat ordinal) (LLVMFuncOp_getParams llvmFuncOp ! unat ordinal)))
            else Inl AssertionFailure)"
proof -
  define refs where "refs = walk_InterfaceBindingSubspanOp (FuncOp_getBody funcOp)"
  define tys where "tys = map (\<lambda>op. the (llvmInputType op)) refs"
  note facts = ConvertFunc_success[OF conv, folded refs_def, folded tys_def]
  have params: "LLVMFuncOp_getParams llvmFuncOp = tys"
    using facts(5) by simp
  have len: "length tys = length refs" by (simp add: tys_def)
  from mem have ne: "refs \<noteq> []" by (auto simp: refs_def)
  then have "FuncOp_getBody funcOp \<noteq> []"
    using references_need_block by (auto simp: refs_def)
  with facts(7) obtain ops rest' where body: "LLVMFuncOp_getBody llvmFuncOp = Block tys ops # rest'"
    by auto
  from ne have n: "getNumArguments llvmFuncOp > 0"
    by (simp add: getNumArguments_def params len del: LLVMFuncOp_getParams.simps)
  from mem facts(4) have "llvmInputType (InterfaceBindingSubspanOp binding resultType) \<noteq> None"
    by (auto simp: refs_def)
  then obtain shape elType ms where ty: "resultType = MemRefType shape elType ms"
    using llvmInputType_memref by blast
  show ?thesis
    unfolding params using n sym static body ty by simp
qed

subsection \<open>The workgroup pattern, case by case\<close>

lemma workgroup_axes:
  "dimension op = 0 \<Longrightarrow> HALInterfaceWorkgroupOpsConverter XOp YOp ZOp op =
      success (LLVM_SExtOp (IntegerType 64 Signless) (IntrinsicOp XOp (IntegerType 32 Signless)))"
  "dimension op = 1 \<Longrightarrow> HALInterfaceWorkgroupOpsConverter XOp YOp ZOp op =
      success (LLVM_SExtOp (IntegerType 64 Signless) (IntrinsicOp YOp (IntegerType 32 Signless)))"
  "dimension op = 2 \<Longrightarrow> HALInterfaceWorkgroupOpsConverter XOp YOp ZOp op =
      success (LLVM_SExtOp (IntegerType 64 Signless) (IntrinsicOp ZOp (IntegerType 32 Signless)))"
  by (simp_all add: Let_def)

lemma sint_small_cases:
  fixes d :: "64 word"
  shows "sint d = 0 \<Longrightarrow> d = 0" "sint d = 1 \<Longrightarrow> d = 1" "sint d = 2 \<Longrightarrow> d = 2"
proof -
  have r: "d = word_of_int (sint d)" by simp
  show "sint d = 0 \<Longrightarrow> d = 0" by (subst r) simp
  show "sint d = 1 \<Longrightarrow> d = 1" by (subst r) simp
  show "sint d = 2 \<Longrightarrow> d = 2" by (subst r) simp
qed

text \<open>An axis other than 0, 1 and 2 that fits 32 bits is declined.\<close>

lemma workgroup_other_axis_in_range:
  assumes "- (2 ^ 31) \<le> sint (dimension op)" "sint (dimension op) < 2 ^ 31"
    "dimension op \<noteq> 0" "dimension op \<noteq> 1" "dimension op \<noteq> 2"
  shows "HALInterfaceWorkgroupOpsConverter XOp YOp ZOp op = failure"
proof -
  have "sint (scast (dimension op) :: 32 word) = sint (dimension op)"
    using assms(1,2) by (simp add: signed_scast_eq signed_take_bit_int_eq_self)
  moreover have "sint (dimension op) \<noteq> 0" "sint (dimension op) \<noteq> 1" "sint (dimension op) \<noteq> 2"
    using assms(3-5) sint_small_cases[of "dimension op"] by blast+
  ultimately show ?thesis by (simp add: Let_def)
qed

text \<open>
  Axis 3: the one pattern registered for the kind of the query declines, and the driver
  is left without a replacement, for either backend.
\<close>

lemma workgroup_axis_3_illegal:
  "legalizeWorkgroupOp (populateLLVMConversionPatterns useROCM) \<lparr>opKind = k, dimension = 3\<rparr> = None"
  by (cases k; cases useROCM) (simp_all add: populateLLVMConversionPatterns_def Let_def)

text \<open>
  The axes 0, 1 and 2 of each query, for either backend: the driver replaces the query
  by the intrinsic of the table, read as a 32-bit integer and sign-extended to 64 bits.
\<close>

lemma workgroup_axis_table:
  assumes "axis < 3"
  shows "legalizeWorkgroupOp (populateLLVMConversionPatterns useROCM)
            \<lparr>opKind = k, dimension = of_nat axis\<rparr> =
         Some (LLVM_SExtOp (IntegerType 64 Signless)
                (IntrinsicOp (the (intrinsicTable useROCM k axis)) (IntegerType 32 Signless)))"
proof -
  from assms have "axis = 0 \<or> axis = 1 \<or> axis = 2" by auto
  then show ?thesis
    by (cases k; cases useROCM) (auto simp: populateLLVMConversionPatterns_def Let_def)
qed

section \<open>Function-signature flattening and binding resolution\<close>

text \<open>
  What the two patterns do, one after the other.  When ConvertFunc succeeds, the
  function is public and has no parameters, and the parameters of the lowered function
  are the pointer types of the binding references of the body, reference by reference
  in the order of the walk.  ConvertIREEBindingOp then resolves a statically shaped
  reference to the argument at the ordinal declared for its binding, if there is one.
\<close>

lemma ConvertFunc_then_ConvertIREEBindingOp:
  assumes conv: "ConvertFunc typeConverter funcOp = success llvmFuncOp"
  shows "isPublic funcOp \<and> FuncOp_getInputs funcOp = []
       \<and> LLVMFuncOp_getParams llvmFuncOp =
           map (\<lambda>op. the (llvmInputType op)) (preOrderReferences (FuncOp_getBody funcOp))
       \<and> (\<forall>t \<in> set (LLVMFuncOp_getParams llvmFuncOp). isPointerType t)
       \<and> length (LLVMFuncOp_getParams llvmFuncOp) = length (preOrderReferences (FuncOp_getBody funcOp))
       \<and> (distinct (bindingSymbols (preOrderReferences (FuncOp_getBody funcOp))) \<longrightarrow>
            length (LLVMFuncOp_getParams llvmFuncOp) = length (distinctBindings funcOp))
       \<and> (\<forall>binding resultType ordinal.
            InterfaceBindingSubspanOp binding resultType \<in> set (preOrderReferences (FuncOp_getBody funcOp)) \<longrightarrow>
            symbolTable binding = Some (InterfaceBindingOp ordinal) \<longrightarrow>
            hasStaticShape resultType \<longrightarrow>
            ConvertIREEBindingOp (Some llvmFuncOp) symbolTable (InterfaceBindingSubspanOp binding resultType) =
              (if unat ordinal < length (LLVMFuncOp_getParams llvmFuncOp)
               then success (fromStaticShape resultType
                      (BlockArgument (unat ordinal) (LLVMFuncOp_getParams llvmFuncOp ! unat ordinal)))
               else Inl AssertionFailure))
       \<and> (\<forall>i binding resultType ordinal.
            i < length (distinctBindings funcOp) \<longrightarrow>
            distinctBindings funcOp ! i = binding \<longrightarrow>
            InterfaceBindingSubspanOp binding resultType \<in> set (preOrderReferences (FuncOp_getBody funcOp)) \<longrightarrow>
            symbolTable binding = Some (InterfaceBindingOp ordinal) \<longrightarrow>
            unat ordinal = i \<longrightarrow>
            hasStaticShape resultType \<longrightarrow>
            ConvertIREEBindingOp (Some llvmFuncOp) symbolTable (InterfaceBindingSubspanOp binding resultType) =
              success (fromStaticShape resultType (BlockArgument i (LLVMFuncOp_getParams llvmFuncOp ! i))))"
proof -
  define refs where "refs = walk_InterfaceBindingSubspanOp (FuncOp_getBody funcOp)"
  define tys where "tys = map (\<lambda>op. the (llvmInputType op)) refs"
  note facts = ConvertFunc_success[OF conv, folded refs_def, folded tys_def]
  have pre: "preOrderReferences (FuncOp_getBody funcOp) = refs"
    by (simp add: refs_def walk_is_preOrder)
  have params: "LLVMFuncOp_getParams llvmFuncOp = tys"
    using facts(5) by simp
  have ptr: "\<forall>t \<in> set tys. isPointerType t"
    using facts(4) by (auto simp: tys_def intro: llvmInputType_pointer)
  have len: "length tys = length refs" by (simp add: tys_def)
  have syms: "length (bindingSymbols refs) = length refs"
    unfolding refs_def walk_InterfaceBindingSubspanOp_def by (rule length_bindingSymbols)
  have dist: "length tys = length (distinctBindings funcOp)" if "distinct (bindingSymbols refs)"
    using that syms by (simp add: distinctBindings_def pre firstEncountered_distinct len)
  have bound: "length (distinctBindings funcOp) \<le> length tys"
    using length_firstEncountered[of "bindingSymbols refs"] syms
    by (simp add: distinctBindings_def pre len)
  have res: "ConvertIREEBindingOp (Some llvmFuncOp) symbolTable (InterfaceBindingSubspanOp binding resultType) =
              (if unat ordinal < length tys
               then success (fromStaticShape resultType (BlockArgument (unat ordinal) (tys ! unat ordinal)))
               else Inl AssertionFailure)"
    if "InterfaceBindingSubspanOp binding resultType \<in> set refs"
      "symbolTable binding = Some (InterfaceBindingOp ordinal)"
      "hasStaticShape resultType"
    for binding resultType ordinal
    using ConvertIREEBindingOp_after_ConvertFunc[OF conv, of binding resultType symbolTable ordinal] that
    by (simp only: params refs_def)
  show ?thesis
    unfolding pre params
  proof (intro conjI allI impI)
    show "isPublic funcOp" by (rule facts(1))
    show "FuncOp_getInputs funcOp = []" by (rule facts(2))
    show "tys = map (\<lambda>op. the (llvmInputType op)) refs" by (simp add: tys_def)
    show "\<forall>t \<in> set tys. isPointerType t" by (rule ptr)
    show "length tys = length refs" by (rule len)
    show "length tys = length (distinctBindings funcOp)" if "distinct (bindingSymbols refs)"
      using that by (rule dist)
    show "ConvertIREEBindingOp (Some llvmFuncOp) symbolTable (InterfaceBindingSubspanOp binding resultType) =
              (if unat ordinal < length tys
               then success (fromStaticShape resultType (BlockArgument (unat ordinal) (tys ! unat ordinal)))
               else Inl AssertionFailure)"
      if "InterfaceBindingSubspanOp binding resultType \<in> set refs"
        "symbolTable binding = Some (InterfaceBindingOp ordinal)"
        "hasStaticShape resultType"
      for binding resultType ordinal
      using that by (rule res)
    show "ConvertIREEBindingOp (Some llvmFuncOp) symbolTable (InterfaceBindingSubspanOp binding resultType) =
              success (fromStaticShape resultType (BlockArgument i (tys ! i)))"
      if "i < length (distinctBindings funcOp)"
        "InterfaceBindingSubspanOp binding resultType \<in> set refs"
        "symbolTable binding = Some (InterfaceBindingOp ordinal)"
        "unat ordinal = i"
        "hasStaticShape resultType"
      for i binding resultType ordinal
      using res[OF that(2,3,5)] that(1,4) bound by simp
  qed
qed

lemma dispatchInOrder_lowered:
  "ConvertFunc exampleTypeConverter dispatchInOrder =
     success (loweredWith [LLVMPointerType (FloatType 32) 0, LLVMPointerType (IntegerType 32 Signless) 0]
       [InterfaceBindingSubspanOp ''arg0'' memref_4xf32, InterfaceBindingSubspanOp ''ret0'' memref_4xi32])"
  by (simp add: dispatchInOrder_def dispatchWith_def loweredWith_def exampleTypeConverter_def
      isPublic_def getAttr_def FuncOp_getAttrs_def getSymbolAttrName_def getTypeAttrName_def
      walk_InterfaceBindingSubspanOp_def walkRegion_def memref_4xi32_def memref_4xf32_def
      addInputs_def SignatureConversion_init_def getConvertedTypes_def)

lemma dispatchInOrder_resolved:
  "ConvertFunc exampleTypeConverter dispatchInOrder =
     success (loweredWith [LLVMPointerType (FloatType 32) 0, LLVMPointerType (IntegerType 32 Signless) 0]
       [InterfaceBindingSubspanOp ''arg0'' memref_4xf32, InterfaceBindingSubspanOp ''ret0'' memref_4xi32])
   \<and> length (LLVMFuncOp_getParams
        (loweredWith [LLVMPointerType (FloatType 32) 0, LLVMPointerType (IntegerType 32 Signless) 0]
          [InterfaceBindingSubspanOp ''arg0'' memref_4xf32, InterfaceBindingSubspanOp ''ret0'' memref_4xi32])) = 2
   \<and> distinctBindings dispatchInOrder = [''arg0'', ''ret0'']
   \<and> ConvertIREEBindingOp
        (Some (loweredWith [LLVMPointerType (FloatType 32) 0, LLVMPointerType (IntegerType 32 Signless) 0]
          [InterfaceBindingSubspanOp ''arg0'' memref_4xf32, InterfaceBindingSubspanOp ''ret0'' memref_4xi32]))
        exampleSymbolTable (InterfaceBindingSubspanOp ''ret0'' memref_4xi32)
      = success (fromStaticShape memref_4xi32 (BlockArgument 1 (LLVMPointerType (IntegerType 32 Signless) 0)))"
proof -
  let ?g = "loweredWith [LLVMPointerType (FloatType 32) 0, LLVMPointerType (IntegerType 32 Signless) 0]
       [InterfaceBindingSubspanOp ''arg0'' memref_4xf32, InterfaceBindingSubspanOp ''ret0'' memref_4xi32]"
  note t = ConvertFunc_then_ConvertIREEBindingOp[OF dispatchInOrder_lowered, of exampleSymbolTable]
  have refs: "preOrderReferences (FuncOp_getBody dispatchInOrder) =
      [InterfaceBindingSubspanOp ''arg0'' memref_4xf32, InterfaceBindingSubspanOp ''ret0'' memref_4xi32]"
    by (simp add: preOrderReferences_def dispatchInOrder_def dispatchWith_def)
  have d: "distinctBindings dispatchInOrder = [''arg0'', ''ret0'']"
    by (simp add: distinctBindings_def refs firstEncountered_def)
  from t have len: "length (LLVMFuncOp_getParams ?g) = length (preOrderReferences (FuncOp_getBody dispatchInOrder))"
    by blast
  from t have "\<forall>i binding resultType ordinal.
            i < length (distinctBindings dispatchInOrder) \<longrightarrow>
            distinctBindings dispatchInOrder ! i = binding \<longrightarrow>
            InterfaceBindingSubspanOp binding resultType \<in> set (preOrderReferences (FuncOp_getBody dispatchInOrder)) \<longrightarrow>
            exampleSymbolTable binding = Some (InterfaceBindingOp ordinal) \<longrightarrow>
            unat ordinal = i \<longrightarrow>
            hasStaticShape resultType \<longrightarrow>
            ConvertIREEBindingOp (Some ?g) exampleSymbolTable (InterfaceBindingSubspanOp binding resultType) =
              success (fromStaticShape resultType (BlockArgument i (LLVMFuncOp_getParams ?g ! i)))"
    by blast
  from this[rule_format, of 1 "''ret0''" memref_4xi32 1]
  have r: "ConvertIREEBindingOp (Some ?g) exampleSymbolTable (InterfaceBindingSubspanOp ''ret0'' memref_4xi32) =
              success (fromStaticShape memref_4xi32 (BlockArgument 1 (LLVMFuncOp_getParams ?g ! 1)))"
    by (simp add: d refs exampleSymbolTable_def memref_4xi32_def)
  have p: "LLVMFuncOp_getParams ?g ! 1 = LLVMPointerType (IntegerType 32 Signless) 0"
    by (simp add: loweredWith_def)
  from dispatchInOrder_lowered len refs d r p show ?thesis by simp
qed

text \<open>
  C1, at the inputs on which the sources and the statement part.  ConvertFunc types the
  parameters reference by reference in the order of the walk, and ConvertIREEBindingOp
  picks the parameter by the ordinal of the binding, so the two disagree as soon as the
  references are not met once each in the order of the ordinals.

  In \<open>dispatchSwapped\<close> the binding first encountered is \<^verbatim>\<open>@ret0\<close>: its reference
  does not resolve to the first parameter but to the second (index 1), and the
  descriptor of a memref of \<^verbatim>\<open>i32\<close> is built over the pointer to \<^verbatim>\<open>f32\<close> made for
  \<^verbatim>\<open>@arg0\<close>.  In \<open>dispatchTwice\<close> there is one distinct binding and the lowered
  function has two parameters.  In \<open>dispatchRepeated\<close> the ordinals are the positions
  of first encounter, there are two distinct bindings and three parameters, and the
  reference to \<^verbatim>\<open>@ret0\<close> resolves to the pointer to \<^verbatim>\<open>f32\<close> made for the second
  reference to \<^verbatim>\<open>@arg0\<close>.
\<close>

theorem binding_resolution_mismatch:
  "distinctBindings dispatchSwapped = [''ret0'', ''arg0'']
   \<and> ConvertFunc exampleTypeConverter dispatchSwapped =
       success (loweredWith [LLVMPointerType (IntegerType 32 Signless) 0, LLVMPointerType (FloatType 32) 0]
         [InterfaceBindingSubspanOp ''ret0'' memref_4xi32, InterfaceBindingSubspanOp ''arg0'' memref_4xf32])
   \<and> ConvertIREEBindingOp
        (Some (loweredWith [LLVMPointerType (IntegerType 32 Signless) 0, LLVMPointerType (FloatType 32) 0]
          [InterfaceBindingSubspanOp ''ret0'' memref_4xi32, InterfaceBindingSubspanOp ''arg0'' memref_4xf32]))
        exampleSymbolTable (InterfaceBindingSubspanOp ''ret0'' memref_4xi32)
      = success (fromStaticShape memref_4xi32 (BlockArgument 1 (LLVMPointerType (FloatType 32) 0)))
   \<and> distinctBindings dispatchTwice = [''arg0'']
   \<and> ConvertFunc exampleTypeConverter dispatchTwice =
       success (loweredWith [LLVMPointerType (FloatType 32) 0, LLVMPointerType (FloatType 32) 0]
         [InterfaceBindingSubspanOp ''arg0'' memref_4xf32, InterfaceBindingSubspanOp ''arg0'' memref_4xf32])
   \<and> length (LLVMFuncOp_getParams
        (loweredWith [LLVMPointerType (FloatType 32) 0, LLVMPointerType (FloatType 32) 0]
          [InterfaceBindingSubspanOp ''arg0'' memref_4xf32, InterfaceBindingSubspanOp ''arg0'' memref_4xf32])) = 2
   \<and> distinctBindings dispatchRepeated = [''arg0'', ''ret0'']
   \<and> ConvertFunc exampleTypeConverter dispatchRepeated =
       success (loweredWith [LLVMPointerType (FloatType 32) 0, LLVMPointerType (FloatType 32) 0,
                              LLVMPointerType (IntegerType 32 Signless) 0]
         [InterfaceBindingSubspanOp ''arg0'' memref_4xf32, InterfaceBindingSubspanOp ''arg0'' memref_4xf32,
          InterfaceBindingSubspanOp ''ret0'' memref_4xi32])
   \<and> ConvertIREEBindingOp
        (Some (loweredWith [LLVMPointerType (FloatType 32) 0, LLVMPointerType (FloatType 32) 0,
                             LLVMPointerType (IntegerType 32 Signless) 0]
          [InterfaceBindingSubspanOp ''arg0'' memref_4xf32, InterfaceBindingSubspanOp ''arg0'' memref_4xf32,
           InterfaceBindingSubspanOp ''ret0'' memref_4xi32]))
        exampleSymbolTable (InterfaceBindingSubspanOp ''ret0'' memref_4xi32)
      = success (fromStaticShape memref_4xi32 (BlockArgument 1 (LLVMPointerType (FloatType 32) 0)))"
proof (intro conjI)
  show "distinctBindings dispatchSwapped = [''ret0'', ''arg0'']"
    by (simp add: distinctBindings_def dispatchSwapped_def dispatchWith_def preOrderReferences_def
        firstEncountered_def)
  show "ConvertFunc exampleTypeConverter dispatchSwapped =
       success (loweredWith [LLVMPointerType (IntegerType 32 Signless) 0, LLVMPointerType (FloatType 32) 0]
         [InterfaceBindingSubspanOp ''ret0'' memref_4xi32, InterfaceBindingSubspanOp ''arg0'' memref_4xf32])"
    by (simp add: dispatchSwapped_def dispatchWith_def loweredWith_def exampleTypeConverter_def
        isPublic_def getAttr_def FuncOp_getAttrs_def getSymbolAttrName_def getTypeAttrName_def
        walk_InterfaceBindingSubspanOp_def walkRegion_def memref_4xi32_def memref_4xf32_def
        addInputs_def SignatureConversion_init_def getConvertedTypes_def)
  show "ConvertIREEBindingOp
        (Some (loweredWith [LLVMPointerType (IntegerType 32 Signless) 0, LLVMPointerType (FloatType 32) 0]
          [InterfaceBindingSubspanOp ''ret0'' memref_4xi32, InterfaceBindingSubspanOp ''arg0'' memref_4xf32]))
        exampleSymbolTable (InterfaceBindingSubspanOp ''ret0'' memref_4xi32)
      = success (fromStaticShape memref_4xi32 (BlockArgument 1 (LLVMPointerType (FloatType 32) 0)))"
    by (simp add: loweredWith_def exampleSymbolTable_def getNumArguments_def memref_4xi32_def)
  show "distinctBindings dispatchTwice = [''arg0'']"
    by (simp add: distinctBindings_def dispatchTwice_def dispatchWith_def preOrderReferences_def
        firstEncountered_def)
  show "ConvertFunc exampleTypeConverter dispatchTwice =
       success (loweredWith [LLVMPointerType (FloatType 32) 0, LLVMPointerType (FloatType 32) 0]
         [InterfaceBindingSubspanOp ''arg0'' memref_4xf32, InterfaceBindingSubspanOp ''arg0'' memref_4xf32])"
    by (simp add: dispatchTwice_def dispatchWith_def loweredWith_def exampleTypeConverter_def
        isPublic_def getAttr_def FuncOp_getAttrs_def getSymbolAttrName_def getTypeAttrName_def
        walk_InterfaceBindingSubspanOp_def walkRegion_def memref_4xf32_def
        addInputs_def SignatureConversion_init_def getConvertedTypes_def)
  show "length (LLVMFuncOp_getParams
        (loweredWith [LLVMPointerType (FloatType 32) 0, LLVMPointerType (FloatType 32) 0]
          [InterfaceBindingSubspanOp ''arg0'' memref_4xf32, InterfaceBindingSubspanOp ''arg0'' memref_4xf32])) = 2"
    by (simp add: loweredWith_def)
  show "distinctBindings dispatchRepeated = [''arg0'', ''ret0'']"
    by (simp add: distinctBindings_def dispatchRepeated_def dispatchWith_def preOrderReferences_def
        firstEncountered_def)
  show "ConvertFunc exampleTypeConverter dispatchRepeated =
       success (loweredWith [LLVMPointerType (FloatType 32) 0, LLVMPointerType (FloatType 32) 0,
                              LLVMPointerType (IntegerType 32 Signless) 0]
         [InterfaceBindingSubspanOp ''arg0'' memref_4xf32, InterfaceBindingSubspanOp ''arg0'' memref_4xf32,
          InterfaceBindingSubspanOp ''ret0'' memref_4xi32])"
    by (simp add: dispatchRepeated_def dispatchWith_def loweredWith_def exampleTypeConverter_def
        isPublic_def getAttr_def FuncOp_getAttrs_def getSymbolAttrName_def getTypeAttrName_def
        walk_InterfaceBindingSubspanOp_def walkRegion_def memref_4xi32_def memref_4xf32_def
        addInputs_def SignatureConversion_init_def getConvertedTypes_def)
  show "ConvertIREEBindingOp
        (Some (loweredWith [LLVMPointerType (FloatType 32) 0, LLVMPointerType (FloatType 32) 0,
                             LLVMPointerType (IntegerType 32 Signless) 0]
          [InterfaceBindingSubspanOp ''arg0'' memref_4xf32, InterfaceBindingSubspanOp ''arg0'' memref_4xf32,
           InterfaceBindingSubspanOp ''ret0'' memref_4xi32]))
        exampleSymbolTable (InterfaceBindingSubspanOp ''ret0'' memref_4xi32)
      = success (fromStaticShape memref_4xi32 (BlockArgument 1 (LLVMPointerType (FloatType 32) 0)))"
    by (simp add: loweredWith_def exampleSymbolTable_def getNumArguments_def memref_4xi32_def)
qed

section \<open>Comparison lowering\<close>

text \<open>
  C2.  Each of the six predicates equal, not-equal, signed and unsigned less-than,
  signed and unsigned less-or-equal is rewritten to the VM comparison of the same
  relation and signedness, with the 32-bit result type and the operands in their
  order; and for every predicate of the source the instruction chosen has the relation
  and the signedness of the predicate, so no unsigned predicate is lowered to a signed
  instruction or conversely.
\<close>

theorem CmpIOpConversion_predicate_fidelity:
  "CmpIOpConversion \<lparr>getPredicate = eq\<rparr> ad =
      success (VM_CmpEQI32Op (IntegerType 32 Signless) (lhs ad) (rhs ad))
   \<and> CmpIOpConversion \<lparr>getPredicate = ne\<rparr> ad =
      success (VM_CmpNEI32Op (IntegerType 32 Signless) (lhs ad) (rhs ad))
   \<and> CmpIOpConversion \<lparr>getPredicate = slt\<rparr> ad =
      success (VM_CmpLTI32SOp (IntegerType 32 Signless) (lhs ad) (rhs ad))
   \<and> CmpIOpConversion \<lparr>getPredicate = ult\<rparr> ad =
      success (VM_CmpLTI32UOp (IntegerType 32 Signless) (lhs ad) (rhs ad))
   \<and> CmpIOpConversion \<lparr>getPredicate = sle\<rparr> ad =
      success (VM_CmpLTEI32SOp (IntegerType 32 Signless) (lhs ad) (rhs ad))
   \<and> CmpIOpConversion \<lparr>getPredicate = ule\<rparr> ad =
      success (VM_CmpLTEI32UOp (IntegerType 32 Signless) (lhs ad) (rhs ad))
   \<and> (\<forall>p. case CmpIOpConversion \<lparr>getPredicate = p\<rparr> ad of
            Inr newOp \<Rightarrow>
              instructionRelation newOp = Some (predicateRelation p)
              \<and> instructionSignedness newOp = Some (predicateSignedness p)
              \<and> instructionOperands newOp = [lhs ad, rhs ad]
          | Inl e \<Rightarrow> False)"
proof -
  have "case CmpIOpConversion \<lparr>getPredicate = p\<rparr> ad of
            Inr newOp \<Rightarrow>
              instructionRelation newOp = Some (predicateRelation p)
              \<and> instructionSignedness newOp = Some (predicateSignedness p)
              \<and> instructionOperands newOp = [lhs ad, rhs ad]
          | Inl e \<Rightarrow> False" for p
    by (cases p) simp_all
  then show ?thesis by simp
qed

section \<open>Shift lowering\<close>

text \<open>
  C3.  The shift pattern succeeds only when the type of the operation is the signless
  integer type of 32 bits and the shift amount is a constant that does not exceed 32,
  and then the instruction carries that amount unchanged.  It declines when the type is
  another one, when the amount is not a constant, and when the constant amount (of the
  type of the operation, as the operands of a shift are) exceeds 32.
\<close>

theorem ShiftArithmeticOpConversion_declines_or_exact:
  "(succeeds (ShiftLeftOpConversion srcOp ad) \<longrightarrow>
      ShiftLeftOp_getType srcOp = IntegerType 32 Signless
      \<and> (\<exists>amount. m_ConstantInt (rhs ad) = Some amount \<and> unsignedValue amount \<le> 32))
   \<and> (ShiftLeftOp_getType srcOp \<noteq> IntegerType 32 Signless \<longrightarrow>
        ShiftLeftOpConversion srcOp ad = failure)
   \<and> (m_ConstantInt (rhs ad) = None \<longrightarrow> ShiftLeftOpConversion srcOp ad = failure)
   \<and> (\<forall>amount. getType (rhs ad) = ShiftLeftOp_getType srcOp \<longrightarrow>
        m_ConstantInt (rhs ad) = Some amount \<longrightarrow> 32 < unsignedValue amount \<longrightarrow>
        ShiftLeftOpConversion srcOp ad = failure)
   \<and> (\<forall>amount. ShiftLeftOp_getType srcOp = IntegerType 32 Signless \<longrightarrow>
        m_ConstantInt (rhs ad) = Some amount \<longrightarrow> unsignedValue amount \<le> 32 \<longrightarrow>
        ShiftLeftOpConversion srcOp ad =
          success (VM_ShlI32Op (IntegerType 32 Signless) (lhs ad)
                     (IntegerAttr (IntegerType 8 Signless) (int (unsignedValue amount)))))"
  using shift_succeeds_only[of srcOp ad] shift_other_type[of srcOp ad]
    shift_not_constant[of ad srcOp] shift_too_large[of ad srcOp] shift_in_range[of srcOp ad]
  by blast

theorem ShiftArithmeticOpConversion_declines_or_exact_witness:
  "ShiftLeftOpConversion \<lparr>ShiftLeftOp_getType = IntegerType 32 Signless\<rparr>
      \<lparr>lhs = BlockArgument 0 (IntegerType 32 Signless), rhs = IntegerConstant (IntegerType 32 Signless) 33\<rparr>
     = failure
   \<and> ShiftLeftOpConversion \<lparr>ShiftLeftOp_getType = IntegerType 32 Signless\<rparr>
      \<lparr>lhs = BlockArgument 0 (IntegerType 32 Signless), rhs = IntegerConstant (IntegerType 32 Signless) (- 1)\<rparr>
     = failure
   \<and> ShiftLeftOpConversion \<lparr>ShiftLeftOp_getType = IntegerType 32 Signless\<rparr>
      \<lparr>lhs = BlockArgument 0 (IntegerType 32 Signless), rhs = BlockArgument 1 (IntegerType 32 Signless)\<rparr>
     = failure
   \<and> ShiftLeftOpConversion \<lparr>ShiftLeftOp_getType = IntegerType 64 Signless\<rparr>
      \<lparr>lhs = BlockArgument 0 (IntegerType 64 Signless), rhs = IntegerConstant (IntegerType 64 Signless) 3\<rparr>
     = failure
   \<and> ShiftLeftOpConversion \<lparr>ShiftLeftOp_getType = IntegerType 32 Signless\<rparr>
      \<lparr>lhs = BlockArgument 0 (IntegerType 32 Signless), rhs = IntegerConstant (IntegerType 32 Signless) 32\<rparr>
     = success (VM_ShlI32Op (IntegerType 32 Signless) (BlockArgument 0 (IntegerType 32 Signless))
                  (IntegerAttr (IntegerType 8 Signless) 32))"
  using
    ShiftArithmeticOpConversion_declines_or_exact [of
      "\<lparr>ShiftLeftOp_getType = IntegerType 32 Signless\<rparr>"
      "\<lparr>lhs = BlockArgument 0 (IntegerType 32 Signless), rhs = IntegerConstant (IntegerType 32 Signless) 33\<rparr>"]
    ShiftArithmeticOpConversion_declines_or_exact [of
      "\<lparr>ShiftLeftOp_getType = IntegerType 32 Signless\<rparr>"
      "\<lparr>lhs = BlockArgument 0 (IntegerType 32 Signless), rhs = IntegerConstant (IntegerType 32 Signless) (- 1)\<rparr>"]
    ShiftArithmeticOpConversion_declines_or_exact [of
      "\<lparr>ShiftLeftOp_getType = IntegerType 32 Signless\<rparr>"
      "\<lparr>lhs = BlockArgument 0 (IntegerType 32 Signless), rhs = BlockArgument 1 (IntegerType 32 Signless)\<rparr>"]
    ShiftArithmeticOpConversion_declines_or_exact [of
      "\<lparr>ShiftLeftOp_getType = IntegerType 64 Signless\<rparr>"
      "\<lparr>lhs = BlockArgument 0 (IntegerType 64 Signless), rhs = IntegerConstant (IntegerType 64 Signless) 3\<rparr>"]
    ShiftArithmeticOpConversion_declines_or_exact [of
      "\<lparr>ShiftLeftOp_getType = IntegerType 32 Signless\<rparr>"
      "\<lparr>lhs = BlockArgument 0 (IntegerType 32 Signless), rhs = IntegerConstant (IntegerType 32 Signless) 32\<rparr>"]
  by (simp add: getValue_def)

section \<open>Constant lowering\<close>

text \<open>
  C4, at the input on which the sources and the statement part.  A constant of type
  \<^verbatim>\<open>index\<close> has an integer attribute as its value, and its type has no bit width:
  the pattern neither succeeds nor declines, it violates the precondition of
  \<^verbatim>\<open>getIntOrFloatBitWidth\<close>.  (For the integer types the pattern does what C4 says:
  \<open>ConstantOpConversion_integer\<close>, \<open>ConstantOpConversion_not_integer\<close>,
  \<open>getInt_zero_iff\<close> and \<open>ConstI32Op_exact\<close>.)
\<close>

theorem ConstantOpConversion_index_constant:
  "ConstantOpConversion \<lparr>ConstantOp_getValue = IntegerAttr IndexType 0\<rparr> = Inl AssertionFailure
   \<and> \<not> declines (ConstantOpConversion \<lparr>ConstantOp_getValue = IntegerAttr IndexType 0\<rparr>)
   \<and> \<not> succeeds (ConstantOpConversion \<lparr>ConstantOp_getValue = IntegerAttr IndexType 0\<rparr>)"
  by simp

section \<open>Workgroup intrinsics\<close>

text \<open>
  C5, at the input on which the sources and the statement part.  The axis is narrowed
  to 32 bits before it is inspected, so the axis \<open>2 ^ 32\<close>, which is outside
  \<open>{0, 1, 2}\<close>, is lowered as axis 0 instead of being declined.  (For the axes 0, 1
  and 2, and for every other axis that fits 32 bits, the pattern does what C5 says:
  \<open>workgroup_axes\<close>, \<open>workgroup_other_axis_in_range\<close>, \<open>workgroup_axis_3_illegal\<close>.)
\<close>

theorem HALInterfaceWorkgroupOpsConverter_axis_wraps:
  "(4294967296 :: 64 word) \<noteq> 0 \<and> (4294967296 :: 64 word) \<noteq> 1 \<and> (4294967296 :: 64 word) \<noteq> 2
   \<and> HALInterfaceWorkgroupOpsConverter NVVM_BlockIdXOp NVVM_BlockIdYOp NVVM_BlockIdZOp
      \<lparr>opKind = InterfaceWorkgroupIDOp, dimension = 4294967296\<rparr>
   = success (LLVM_SExtOp (IntegerType 64 Signless)
               (IntrinsicOp NVVM_BlockIdXOp (IntegerType 32 Signless)))
   \<and> legalizeWorkgroupOp (populateLLVMConversionPatterns False)
      \<lparr>opKind = InterfaceWorkgroupIDOp, dimension = 4294967296\<rparr>
   = Some (LLVM_SExtOp (IntegerType 64 Signless)
               (IntrinsicOp NVVM_BlockIdXOp (IntegerType 32 Signless)))"
  by (simp add: Let_def populateLLVMConversionPatterns_def)

section \<open>Function conversion\<close>

text \<open>
  C6.  After a successful function conversion the VM function carries the reflection
  metadata and the visibility exactly when the source function carries them, with the
  same contents, and no attribute of any other name.
\<close>

theorem FuncOpConversion_attribute_allow_list:
  assumes "FuncOpConversion conv srcOp = success r"
  shows "getAttr ''iree.reflection'' (VM_FuncOp_attrs (newFuncOp r)) =
           getAttr ''iree.reflection'' (FuncOp_attrs srcOp)
       \<and> getAttr ''sym_visibility'' (VM_FuncOp_attrs (newFuncOp r)) =
           getAttr ''sym_visibility'' (FuncOp_attrs srcOp)
       \<and> (\<forall>attrName. attrName \<noteq> ''iree.reflection'' \<and> attrName \<noteq> ''sym_visibility'' \<longrightarrow>
             getAttr attrName (VM_FuncOp_attrs (newFuncOp r)) = None)"
proof -
  have a: "getAttr k (VM_FuncOp_attrs (newFuncOp r)) =
      (if k \<in> set kRetainedAttributes \<and> getAttr k (FuncOp_getAttrs srcOp) \<noteq> None
       then getAttr k (FuncOp_getAttrs srcOp) else None)" for k
    unfolding FuncOpConversion_success(1)[OF assms] getAttr_retainAttributes
    by (simp add: getAttr_def)
  have b: "getAttr ''iree.reflection'' (FuncOp_getAttrs srcOp) =
             getAttr ''iree.reflection'' (FuncOp_attrs srcOp)"
    "getAttr ''sym_visibility'' (FuncOp_getAttrs srcOp) =
             getAttr ''sym_visibility'' (FuncOp_attrs srcOp)"
    by (simp_all add: getAttr_further)
  show ?thesis
    using b by (auto simp: a kRetainedAttributes_def)
qed

theorem FuncOpConversion_attribute_allow_list_witness:
  "getAttr ''iree.reflection''
      (VM_FuncOp_attrs (newFuncOp (projr (FuncOpConversion exampleTypeConverter
         (exampleFunc [(''noinline'', UnitAttr), (''iree.reflection'', DictionaryAttr [])])))))
     = Some (DictionaryAttr [])
   \<and> getAttr ''sym_visibility''
      (VM_FuncOp_attrs (newFuncOp (projr (FuncOpConversion exampleTypeConverter
         (exampleFunc [(''noinline'', UnitAttr), (''iree.reflection'', DictionaryAttr [])])))))
     = None
   \<and> getAttr ''noinline''
      (VM_FuncOp_attrs (newFuncOp (projr (FuncOpConversion exampleTypeConverter
         (exampleFunc [(''noinline'', UnitAttr), (''iree.reflection'', DictionaryAttr [])])))))
     = None"
proof -
  let ?f = "exampleFunc [(''noinline'', UnitAttr), (''iree.reflection'', DictionaryAttr [])]"
  have "getAttr ''iree.module.export'' [(''noinline'', UnitAttr), (''iree.reflection'', DictionaryAttr [])] = None"
    by (simp add: getAttr_def)
  from exampleFunc_converted[OF this]
  obtain r where r: "FuncOpConversion exampleTypeConverter ?f = success r" by blast
  from FuncOpConversion_attribute_allow_list[OF r] r show ?thesis
    by (simp add: exampleFunc_def getAttr_def)
qed

text \<open>
  C7.  When the conversion of a function succeeds, it emits no export declaration for a
  function without the export marker and exactly one for a function with it, which
  refers to the converted function and whose exported name is the value of the marker
  when the marker is a string attribute and the name of the converted function
  otherwise.
\<close>

theorem FuncOpConversion_export_declaration:
  assumes "FuncOpConversion conv srcOp = success r"
  shows "exportOps r =
          (case getAttr ''iree.module.export'' (FuncOp_attrs srcOp) of
             None \<Rightarrow> []
           | Some exportAttr \<Rightarrow>
               [\<lparr>function_ref = VM_FuncOp_getName (newFuncOp r),
                 export_name = (case exportAttr of
                                  StringAttr exportStr \<Rightarrow> exportStr
                                | _ \<Rightarrow> VM_FuncOp_getName (newFuncOp r))\<rparr>])"
proof -
  have "getAttr ''iree.module.export'' (FuncOp_getAttrs srcOp) =
          getAttr ''iree.module.export'' (FuncOp_attrs srcOp)"
    by (simp add: getAttr_further)
  with FuncOpConversion_success(2,3)[OF assms] show ?thesis
    by (simp split: option.splits Attribute.splits)
qed

theorem FuncOpConversion_export_declaration_witness:
  "exportOps (projr (FuncOpConversion exampleTypeConverter
      (exampleFunc [(''iree.module.export'', StringAttr ''plus_one'')])))
     = [\<lparr>function_ref = ''add_one'', export_name = ''plus_one''\<rparr>]
   \<and> exportOps (projr (FuncOpConversion exampleTypeConverter
      (exampleFunc [(''iree.module.export'', UnitAttr)])))
     = [\<lparr>function_ref = ''add_one'', export_name = ''add_one''\<rparr>]
   \<and> exportOps (projr (FuncOpConversion exampleTypeConverter (exampleFunc []))) = []"
proof -
  have n: "getAttr ''iree.module.export'' [] = None" by (simp add: getAttr_def)
  note s = exampleFunc_exported(1)[of "''plus_one''", THEN succeeds_projr]
  note u = exampleFunc_exported(2)[THEN succeeds_projr]
  note e = exampleFunc_converted[OF n]
  have name: "VM_FuncOp_getName (newFuncOp r) = ''add_one''"
    if "FuncOpConversion exampleTypeConverter (exampleFunc attrs) = success r" for attrs r
    using FuncOpConversion_success(2)[OF that] by (simp add: exampleFunc_def)
  from FuncOpConversion_export_declaration[OF s] FuncOpConversion_export_declaration[OF u]
    FuncOpConversion_export_declaration[OF e] name[OF s] name[OF u] e
  show ?thesis
    by (simp add: exampleFunc_def getAttr_def)
qed

section \<open>Module restructuring\<close>

text \<open>
  C8.  The module pattern declines for every outermost module, that is, one whose
  parent is absent or is not a module; it succeeds exactly for a module nested in a
  module, and then the body region of the new VM module is the body region of the
  source module, which is left without blocks.
\<close>

theorem ModuleOpConversion_nested_only:
  "(outermost srcOp \<longrightarrow> ModuleOpConversion srcOp = failure)
   \<and> (succeeds (ModuleOpConversion srcOp) \<longleftrightarrow>
        (\<exists>parentOp. ModuleOp_getParentOp srcOp = Some parentOp \<and> isa_ModuleOp parentOp))
   \<and> (\<forall>r. ModuleOpConversion srcOp = success r \<longrightarrow>
         VM_ModuleOp_getBodyRegion (newModuleOp r) = ModuleOp_getBodyRegion srcOp
         \<and> ModuleOp_getBodyRegion (erasedOp r) = []
         \<and> VM_ModuleOp_name (newModuleOp r) =
             (case ModuleOp_getName srcOp of Some n \<Rightarrow> n | None \<Rightarrow> ''module''))"
  by (auto simp: outermost_def Let_def split: option.splits)

theorem ModuleOpConversion_nested_only_witness:
  "ModuleOpConversion (exampleModule None) = failure
   \<and> ModuleOpConversion (exampleModule (Some ''func'')) = failure
   \<and> succeeds (ModuleOpConversion (exampleModule (Some ''module'')))
   \<and> VM_ModuleOp_getBodyRegion (newModuleOp (projr (ModuleOpConversion (exampleModule (Some ''module'')))))
       = [Block [] [GenericOp ''module_terminator'' [] [] []]]"
proof -
  have o: "outermost (exampleModule None)" "outermost (exampleModule (Some ''func''))"
    by (simp_all add: outermost_def exampleModule_def isa_ModuleOp_def)
  have n: "\<exists>parentOp. ModuleOp_getParentOp (exampleModule (Some ''module'')) = Some parentOp
             \<and> isa_ModuleOp parentOp"
    by (simp add: exampleModule_def isa_ModuleOp_def)
  note t = ModuleOpConversion_nested_only
  from t[of "exampleModule None"] o(1)
  have a: "ModuleOpConversion (exampleModule None) = failure" by blast
  from t[of "exampleModule (Some ''func'')"] o(2)
  have b: "ModuleOpConversion (exampleModule (Some ''func'')) = failure" by blast
  from t[of "exampleModule (Some ''module'')"] n
  have c: "succeeds (ModuleOpConversion (exampleModule (Some ''module'')))" by blast
  then have "ModuleOpConversion (exampleModule (Some ''module'')) =
      success (projr (ModuleOpConversion (exampleModule (Some ''module''))))"
    by (rule succeeds_projr)
  with t[of "exampleModule (Some ''module'')"]
  have "VM_ModuleOp_getBodyRegion (newModuleOp (projr (ModuleOpConversion (exampleModule (Some ''module'')))))
       = ModuleOp_getBodyRegion (exampleModule (Some ''module''))"
    by blast
  then have d: "VM_ModuleOp_getBodyRegion (newModuleOp (projr (ModuleOpConversion (exampleModule (Some ''module'')))))
       = [Block [] [GenericOp ''module_terminator'' [] [] []]]"
    by (simp add: exampleModule_def)
  from a b c d show ?thesis by blast
qed

section \<open>Call lowering\<close>

text \<open>
  C9.  The call pattern converts every result type of the call with the type converter.
  If one of them is unconvertible it declines; if all convert it builds the VM call
  with the same callee, the converted result types in their order, and the operands it
  was given, in their order.
\<close>

theorem CallOpConversion_result_types:
  "((\<exists>t\<in>set (CallOp_getResultTypes srcOp). convertType conv t = None) \<longrightarrow>
       CallOpConversion conv srcOp operands = failure)
   \<and> ((\<forall>t\<in>set (CallOp_getResultTypes srcOp). convertType conv t \<noteq> None) \<longrightarrow>
       CallOpConversion conv srcOp operands =
         success (VM_CallOp (CallOp_getCallee srcOp)
                    (map (\<lambda>t. the (convertType conv t)) (CallOp_getResultTypes srcOp)) operands))"
  by (auto simp: convertResultTypes_acc simp del: convertType.simps)

theorem CallOpConversion_result_types_witness:
  "CallOpConversion i32OnlyConverter
      \<lparr>CallOp_getCallee = ''callee'',
       CallOp_getResultTypes = [IntegerType 32 Signless, FloatType 32]\<rparr>
      [BlockArgument 0 (IntegerType 32 Signless), BlockArgument 1 (IntegerType 32 Signless)]
     = failure
   \<and> CallOpConversion i32OnlyConverter
      \<lparr>CallOp_getCallee = ''callee'',
       CallOp_getResultTypes = [IntegerType 32 Signless, IntegerType 32 Signless]\<rparr>
      [BlockArgument 0 (IntegerType 32 Signless), BlockArgument 1 (IntegerType 32 Signless)]
     = success (VM_CallOp ''callee'' [IntegerType 32 Signless, IntegerType 32 Signless]
         [BlockArgument 0 (IntegerType 32 Signless), BlockArgument 1 (IntegerType 32 Signless)])"
  using
    CallOpConversion_result_types [of
      "\<lparr>CallOp_getCallee = ''callee'',
        CallOp_getResultTypes = [IntegerType 32 Signless, FloatType 32]\<rparr>"
      i32OnlyConverter
      "[BlockArgument 0 (IntegerType 32 Signless), BlockArgument 1 (IntegerType 32 Signless)]"]
    CallOpConversion_result_types [of
      "\<lparr>CallOp_getCallee = ''callee'',
        CallOp_getResultTypes = [IntegerType 32 Signless, IntegerType 32 Signless]\<rparr>"
      i32OnlyConverter
      "[BlockArgument 0 (IntegerType 32 Signless), BlockArgument 1 (IntegerType 32 Signless)]"]
  by (simp add: i32OnlyConverter_def)

section \<open>Select lowering\<close>

text \<open>
  C10.  The select pattern succeeds exactly when the true-value operand has the type
  \<^verbatim>\<open>i32\<close>, and then builds the 32-bit VM select with the condition, the true value
  and the false value in that order; for any other type of the true value it declines.
\<close>

theorem SelectI32OpConversion_i32_only:
  "(succeeds (SelectI32OpConversion ad) \<longleftrightarrow> getType (true_value ad) = IntegerType 32 Signless)
   \<and> (getType (true_value ad) = IntegerType 32 Signless \<longrightarrow>
        SelectI32OpConversion ad =
          success (VM_SelectI32Op (IntegerType 32 Signless)
                     (condition ad) (true_value ad) (false_value ad)))
   \<and> (getType (true_value ad) \<noteq> IntegerType 32 Signless \<longrightarrow> SelectI32OpConversion ad = failure)"
  by (simp add: SelectI32OpConversion_kBits_def Let_def)

theorem SelectI32OpConversion_i32_only_witness:
  "SelectI32OpConversion (exampleSelect (IntegerType 32 Signless))
     = success (VM_SelectI32Op (IntegerType 32 Signless)
         (BlockArgument 0 (IntegerType 1 Signless))
         (BlockArgument 1 (IntegerType 32 Signless))
         (BlockArgument 2 (IntegerType 32 Signless)))
   \<and> SelectI32OpConversion (exampleSelect (IntegerType 64 Signless)) = failure
   \<and> SelectI32OpConversion (exampleSelect (IntegerType 32 Unsigned)) = failure"
  using SelectI32OpConversion_i32_only [of "exampleSelect (IntegerType 32 Signless)"]
    SelectI32OpConversion_i32_only [of "exampleSelect (IntegerType 64 Signless)"]
    SelectI32OpConversion_i32_only [of "exampleSelect (IntegerType 32 Unsigned)"]
  by (simp add: exampleSelect_def)

end
